theory Spec2Isabelle
  imports Complex_Main "HOL-Library.Sublist" "HOL-Library.Multiset"
begin

section \<open>Strings\<close>

text \<open>
  Go strings are byte sequences; they are modelled as \<open>string\<close> (a list of \<open>char\<close>, one
  per byte). \<open>strings.HasPrefix(s, prefix)\<close> is
  \<^verbatim>\<open>len(s) >= len(prefix) && s[:len(prefix)] == prefix\<close>.
\<close>

definition HasPrefix :: "string \<Rightarrow> string \<Rightarrow> bool" where
  "HasPrefix s pre = (length s \<ge> length pre \<and> take (length pre) s = pre)"

text \<open>
  \<open>strings.Split(s, sep)\<close> for a one-byte separator: cut at the first separator, keep
  the text before it, and go on with the text after it; the remainder without a
  separator is the last part. The result is never empty.
\<close>

function Split :: "string \<Rightarrow> char \<Rightarrow> string list" where
  "Split s sep =
     (case dropWhile (\<lambda>c. c \<noteq> sep) s of
        [] \<Rightarrow> [s]
      | _ # rest \<Rightarrow> takeWhile (\<lambda>c. c \<noteq> sep) s # Split rest sep)"
  by pat_completeness auto
termination
proof (relation "measure (\<lambda>(s, sep). length s)")
  show "wf (measure (\<lambda>(s, sep). length s))" by simp
next
  fix s :: string and sep c rest
  assume "dropWhile (\<lambda>c. c \<noteq> sep) s = c # rest"
  then have "length rest < length (dropWhile (\<lambda>c. c \<noteq> sep) s)" by simp
  also have "\<dots> \<le> length s" by (rule length_dropWhile_le)
  finally show "((rest, sep), (s, sep)) \<in> measure (\<lambda>(s, sep). length s)" by simp
qed

declare Split.simps [simp del]

text \<open>The verb \<open>%d\<close> of \<open>fmt\<close> on a non-negative integer: its decimal digits.\<close>

fun string_of_nat :: "nat \<Rightarrow> string" where
  "string_of_nat n =
     (if n < 10 then [''0123456789'' ! n]
      else string_of_nat (n div 10) @ [''0123456789'' ! (n mod 10)])"

declare string_of_nat.simps [simp del]

section \<open>Prefix matching and tag rewriting\<close>

text \<open>
  \<open>matchesPrefix\<close> of main.go: the first prefix the image starts with ends the loop
  with true; false when the loop runs out.
\<close>

fun matchesPrefix :: "string \<Rightarrow> string list \<Rightarrow> bool" where
  "matchesPrefix img [] = False"
| "matchesPrefix img (pfx # pfxs) =
     (if HasPrefix img pfx then True else matchesPrefix img pfxs)"

text \<open>
  The inner loop of \<open>UpdateServices\<close>: it sets \<open>matched\<close> and records \<open>imagePrefix\<close> at
  the first prefix the image starts with, then breaks. \<open>None\<close> is \<open>matched = false\<close>,
  \<open>Some imagePrefix\<close> is \<open>matched = true\<close> with the recorded prefix.
\<close>

fun matchPrefix :: "string \<Rightarrow> string list \<Rightarrow> string option" where
  "matchPrefix img [] = None"
| "matchPrefix img (pfx # imagePrefixes) =
     (if HasPrefix img pfx then Some pfx else matchPrefix img imagePrefixes)"

text \<open>
  The tag substitution of \<open>UpdateServices\<close>: the image is split at every \<open>:\<close>; with
  more than one part the new image is part 0 followed by \<open>:\<close> and the version, otherwise
  the whole image followed by \<open>:\<close> and the version.
\<close>

definition tagSubstitute :: "string \<Rightarrow> string \<Rightarrow> string" where
  "tagSubstitute img newVersion =
     (let imageParts = Split img CHR '':''
      in if length imageParts > 1 then hd imageParts @ '':'' @ newVersion
         else img @ '':'' @ newVersion)"

text \<open>
  The prefix check that follows: a substituted image that does not start with the
  recorded prefix is replaced by the prefix followed by \<open>:\<close> and the version.
\<close>

definition rewriteImage :: "string \<Rightarrow> string \<Rightarrow> string \<Rightarrow> string" where
  "rewriteImage img imagePrefix newVersion =
     (let newImage = tagSubstitute img newVersion
      in if \<not> HasPrefix newImage imagePrefix then imagePrefix @ '':'' @ newVersion
         else newImage)"

text \<open>
  The rewrite as the specification words it: everything after the last \<open>:\<close> of the
  image is replaced by the version; an image without \<open>:\<close> gets \<open>:\<close> and the version
  appended.
\<close>

definition spec_tagRewrite :: "string \<Rightarrow> string \<Rightarrow> string" where
  "spec_tagRewrite img newVersion =
     (if CHR '':'' \<in> set img
      then rev (tl (dropWhile (\<lambda>c. c \<noteq> CHR '':'') (rev img))) @ '':'' @ newVersion
      else img @ '':'' @ newVersion)"

section \<open>The collaborators outside the repository\<close>

text \<open>
  A value decoded by \<open>encoding/json\<close> into \<open>interface{}\<close>: \<open>nil\<close>, \<open>bool\<close>,
  \<open>float64\<close> (every finite \<open>float64\<close> is a real number), \<open>string\<close>,
  \<open>[]interface{}\<close> and \<open>map[string]interface{}\<close>. A map is given by its entries, whose
  keys are distinct; the lookup \<open>m[key]\<close> is \<open>map_of\<close> on them.
\<close>

datatype json =
    JNull
  | JBool bool
  | JNumber real
  | JString string
  | JArray "json list"
  | JObject "(string \<times> json) list"

text \<open>
  The three GraphQL operations the client sends, each with its variables:
  \<^item> the \<open>Environment\<close> query with \<open>environmentId\<close>;
  \<^item> the \<open>ServiceInstanceUpdate\<close> mutation with \<open>environmentId\<close>, \<open>serviceId\<close>, and in
    its input the image of \<open>source\<close>, \<open>numReplicas\<close> and, when configured, the
    user name and password of \<open>registryCredentials\<close>;
  \<^item> the \<open>ServiceInstanceDeploy\<close> mutation with \<open>serviceId\<close>, \<open>environmentId\<close> and
    \<open>latestCommit\<close>.
\<close>

datatype request =
    EnvironmentQuery string
  | ServiceInstanceUpdate string string string int "(string \<times> string) option"
  | ServiceInstanceDeploy string string bool

text \<open>
  What the steps of \<open>doRequest\<close> that leave the repository produce: a failure of
  \<open>json.Marshal\<close>, of \<open>http.NewRequest\<close>, of \<open>httpClient.Do\<close> or of \<open>io.ReadAll\<close>, each
  with its message, or a response with its status code and body.
\<close>

datatype transport_result =
    Marshal_failed string
  | Create_failed string
  | Execute_failed string
  | Read_failed string
  | Http_response nat string

record GraphQLResponse =
  Data :: string
  Errors :: "string list"

text \<open>
  A node of \<open>environment.serviceInstances.edges\<close> as \<open>GetServices\<close> decodes it.
  \<open>LatestDeployment\<close> is a pointer to a struct whose \<open>Meta\<close> is a \<open>json.RawMessage\<close>:
  \<open>None\<close> is the nil pointer, \<open>Some None\<close> a nil \<open>Meta\<close>, \<open>Some (Some raw)\<close> the bytes.
\<close>

record node =
  NodeID :: string
  ServiceID :: string
  ServiceName :: string
  LatestDeployment :: "string option option"
  SourceImage :: string
  SourceRepo :: string

record UpdateRequest =
  ProjectID :: string
  EnvironmentID :: string
  ImagePrefixes :: "string list"
  NewVersion :: string

text \<open>
  Everything the program calls outside the repository, taken as parameters:
  \<^item> \<open>json_decode\<close>: \<open>json.Unmarshal\<close> into \<open>interface{}\<close>; \<open>None\<close> when the bytes are
    rejected (a syntax error, a number outside \<open>float64\<close>);
  \<^item> \<open>range_order\<close>: the order in which a \<open>range\<close> statement visits the entries of a
    map, which Go leaves unspecified;
  \<^item> \<open>float64_out_of_range\<close>: the result of \<open>int(x)\<close> for an \<open>x\<close> that \<open>int\<close> cannot
    represent, which Go leaves to the implementation;
  \<^item> \<open>transport\<close>: the remote API behind \<open>doRequest\<close>, given the requests made so far,
    the bearer token and the request;
  \<^item> \<open>decode_graphql\<close>, \<open>decode_environment\<close>: \<open>json.Unmarshal\<close> into
    \<open>GraphQLResponse\<close> and into the result struct of \<open>GetServices\<close> (its edges; the
    other fields are not read), with the error message on the left;
  \<^item> \<open>decode_request\<close>: \<open>json.NewDecoder(r.Body).Decode\<close> into \<open>UpdateRequest\<close>, the
    stream decoder, which decodes the first JSON value of the body, with the error
    message on the left;
  \<^item> \<open>uuid_Parse_ok\<close>: whether \<open>uuid.Parse\<close> returns no error.
\<close>

record externals =
  json_decode :: "string \<Rightarrow> json option"
  range_order :: "(string \<times> json) list \<Rightarrow> (string \<times> json) list"
  float64_out_of_range :: "real \<Rightarrow> int"
  transport :: "request list \<Rightarrow> string \<Rightarrow> request \<Rightarrow> transport_result"
  decode_graphql :: "string \<Rightarrow> string + GraphQLResponse"
  decode_environment :: "string \<Rightarrow> string + node list"
  decode_request :: "string \<Rightarrow> string + UpdateRequest"
  uuid_Parse_ok :: "string \<Rightarrow> bool"

section \<open>Replica resolution\<close>

text \<open>
  The conversion \<open>int(x)\<close> of a \<open>float64\<close> on a 64-bit platform: the fraction is
  discarded (truncation towards zero) when the result fits \<open>int\<close>.
\<close>

definition float64_to_int :: "externals \<Rightarrow> real \<Rightarrow> int" where
  "float64_to_int ext x =
     (if - (2 ^ 63) - 1 < x \<and> x < 2 ^ 63
      then (if 0 \<le> x then \<lfloor>x\<rfloor> else \<lceil>x\<rceil>)
      else float64_out_of_range ext x)"

text \<open>
  \<open>json.Unmarshal\<close> into a \<open>map[string]interface{}\<close> accepts an object and \<open>null\<close>
  (the map stays nil, and every lookup in it fails); into a \<open>string\<close> it accepts a
  string and \<open>null\<close> (the string stays empty). \<open>None\<close> is the returned error.
\<close>

definition unmarshal_map :: "externals \<Rightarrow> string \<Rightarrow> (string \<times> json) list option" where
  "unmarshal_map ext raw =
     (case json_decode ext raw of
        Some JNull \<Rightarrow> Some []
      | Some (JObject kvs) \<Rightarrow> Some kvs
      | _ \<Rightarrow> None)"

definition unmarshal_string :: "externals \<Rightarrow> string \<Rightarrow> string option" where
  "unmarshal_string ext raw =
     (case json_decode ext raw of
        Some JNull \<Rightarrow> Some []
      | Some (JString s) \<Rightarrow> Some s
      | _ \<Rightarrow> None)"

text \<open>The type assertions \<open>v.(map[string]interface{})\<close> and \<open>v.(float64)\<close> on a looked-up value.\<close>

fun assert_object :: "json option \<Rightarrow> (string \<times> json) list option" where
  "assert_object (Some (JObject kvs)) = Some kvs"
| "assert_object _ = None"

fun assert_float64 :: "json option \<Rightarrow> real option" where
  "assert_float64 (Some (JNumber x)) = Some x"
| "assert_float64 _ = None"

text \<open>
  The body of the loop over \<open>multiRegionConfig\<close> for one entry: a region whose value
  is an object with a \<open>float64\<close> \<open>numReplicas\<close> greater than zero yields that region
  and \<open>int(numReplicas)\<close>; any other entry is passed over.
\<close>

definition region_replicas :: "externals \<Rightarrow> string \<times> json \<Rightarrow> (string \<times> int) option" where
  "region_replicas ext entry =
     (case entry of (region, regionConfig) \<Rightarrow>
        (case assert_object (Some regionConfig) of
           None \<Rightarrow> None
         | Some regionMap \<Rightarrow>
             (case assert_float64 (map_of regionMap ''numReplicas'') of
                None \<Rightarrow> None
              | Some numReplicas \<Rightarrow>
                  if numReplicas > 0 then Some (region, float64_to_int ext numReplicas)
                  else None)))"

text \<open>
  The loop, on the entries in the order the \<open>range\<close> visits them: the first entry
  that yields a count ends it.
\<close>

fun scan_regions :: "externals \<Rightarrow> (string \<times> json) list \<Rightarrow> (string \<times> int) option" where
  "scan_regions ext [] = None"
| "scan_regions ext (entry # rest) =
     (case region_replicas ext entry of
        Some found \<Rightarrow> Some found
      | None \<Rightarrow> scan_regions ext rest)"

text \<open>
  The decoding of the metadata at the head of \<open>resolveReplicaCount\<close>: directly into a
  map, or else into a string whose contents are decoded into the map. \<open>None\<close> is a
  return of the default.
\<close>

definition decode_meta :: "externals \<Rightarrow> string option option \<Rightarrow> (string \<times> json) list option" where
  "decode_meta ext latestDeployment =
     (case latestDeployment of
        None \<Rightarrow> None
      | Some None \<Rightarrow> None
      | Some (Some Meta) \<Rightarrow>
          (case unmarshal_map ext Meta of
             Some meta \<Rightarrow> Some meta
           | None \<Rightarrow>
               (case unmarshal_string ext Meta of
                  None \<Rightarrow> None
                | Some metaStr \<Rightarrow> unmarshal_map ext metaStr)))"

text \<open>The navigation \<open>meta.serviceManifest.deploy.multiRegionConfig\<close>.\<close>

definition navigate :: "(string \<times> json) list \<Rightarrow> (string \<times> json) list option" where
  "navigate meta =
     (case assert_object (map_of meta ''serviceManifest'') of
        None \<Rightarrow> None
      | Some serviceManifest \<Rightarrow>
          (case assert_object (map_of serviceManifest ''deploy'') of
             None \<Rightarrow> None
           | Some deploy \<Rightarrow> assert_object (map_of deploy ''multiRegionConfig'')))"

text \<open>
  \<open>resolveReplicaCount\<close> with the region it names in its log line (none on the paths
  that return the default 1), and \<open>resolveReplicaCount\<close> itself, which returns the
  count.
\<close>

definition resolveReplica :: "externals \<Rightarrow> string \<Rightarrow> string option option \<Rightarrow> string option \<times> int" where
  "resolveReplica ext serviceName latestDeployment =
     (case decode_meta ext latestDeployment of
        None \<Rightarrow> (None, 1)
      | Some meta \<Rightarrow>
          (case navigate meta of
             None \<Rightarrow> (None, 1)
           | Some multiRegionConfig \<Rightarrow>
               (case scan_regions ext (range_order ext multiRegionConfig) of
                  Some (region, replicas) \<Rightarrow> (Some region, replicas)
                | None \<Rightarrow> (None, 1))))"

definition resolveReplicaCount :: "externals \<Rightarrow> string \<Rightarrow> string option option \<Rightarrow> int" where
  "resolveReplicaCount ext serviceName latestDeployment =
     snd (resolveReplica ext serviceName latestDeployment)"

section \<open>The remote client\<close>

record RailwayClient =
  token :: string
  registryCredentialUser :: string
  registryCredentialPass :: string

record Service =
  ID :: string
  Name :: string
  Image :: string
  NumReplicas :: int

text \<open>
  \<open>doRequest\<close>: the state is the list of the requests made so far, to which every call
  appends its own. The result is the error message (\<open>Inl\<close>) or the \<open>data\<close> of the
  GraphQL response (\<open>Inr\<close>). Logging is left out.
\<close>

definition doRequest ::
  "externals \<Rightarrow> RailwayClient \<Rightarrow> request list \<Rightarrow> request \<Rightarrow> (string + string) \<times> request list" where
  "doRequest ext c hist req =
     ((case transport ext hist (token c) req of
         Marshal_failed err \<Rightarrow> Inl (''failed to marshal request: '' @ err)
       | Create_failed err \<Rightarrow> Inl (''failed to create request: '' @ err)
       | Execute_failed err \<Rightarrow> Inl (''failed to execute request: '' @ err)
       | Read_failed err \<Rightarrow> Inl (''failed to read response: '' @ err)
       | Http_response statusCode body \<Rightarrow>
           if statusCode \<noteq> 200
           then Inl (''API returned status '' @ string_of_nat statusCode @ '': '' @ body)
           else (case decode_graphql ext body of
                   Inl err \<Rightarrow> Inl (''failed to unmarshal response: '' @ err)
                 | Inr graphqlResp \<Rightarrow>
                     if length (Errors graphqlResp) > 0
                     then Inl (''GraphQL error: '' @ hd (Errors graphqlResp))
                     else Inr (Data graphqlResp))),
      hist @ [req])"

text \<open>
  The loop of \<open>GetServices\<close> over the edges: a node with an empty image is left out;
  the others become services, in the order of the edges, each with its resolved
  replica count.
\<close>

fun services_of_edges :: "externals \<Rightarrow> node list \<Rightarrow> Service list" where
  "services_of_edges ext [] = []"
| "services_of_edges ext (n # edges) =
     (if SourceImage n \<noteq> []
      then \<lparr>ID = ServiceID n, Name = ServiceName n, Image = SourceImage n,
            NumReplicas = resolveReplicaCount ext (ServiceName n) (LatestDeployment n)\<rparr>
           # services_of_edges ext edges
      else services_of_edges ext edges)"

definition GetServices ::
  "externals \<Rightarrow> RailwayClient \<Rightarrow> request list \<Rightarrow> string \<Rightarrow> (string + Service list) \<times> request list" where
  "GetServices ext c hist environmentID =
     (case doRequest ext c hist (EnvironmentQuery environmentID) of
        (Inl err, hist') \<Rightarrow> (Inl err, hist')
      | (Inr data, hist') \<Rightarrow>
          (case decode_environment ext data of
             Inl err \<Rightarrow> (Inl (''failed to parse services: '' @ err), hist')
           | Inr edges \<Rightarrow> (Inr (services_of_edges ext edges), hist')))"

text \<open>
  \<open>UpdateServiceImage\<close>: the update of the service instance, then its deployment. The
  result is the returned error (\<open>None\<close> is nil).
\<close>

definition update_request :: "RailwayClient \<Rightarrow> string \<Rightarrow> string \<Rightarrow> string \<Rightarrow> int \<Rightarrow> request" where
  "update_request c serviceID environmentID newImage replicas =
     ServiceInstanceUpdate environmentID serviceID newImage replicas
       (if registryCredentialUser c \<noteq> [] \<and> registryCredentialPass c \<noteq> []
        then Some (registryCredentialUser c, registryCredentialPass c) else None)"

definition deploy_request :: "string \<Rightarrow> string \<Rightarrow> request" where
  "deploy_request serviceID environmentID = ServiceInstanceDeploy serviceID environmentID False"

definition UpdateServiceImage ::
  "externals \<Rightarrow> RailwayClient \<Rightarrow> request list \<Rightarrow> string \<Rightarrow> string \<Rightarrow> string \<Rightarrow> int
     \<Rightarrow> string option \<times> request list" where
  "UpdateServiceImage ext c hist serviceID environmentID newImage replicas =
     (case doRequest ext c hist (update_request c serviceID environmentID newImage replicas) of
        (Inl err, hist1) \<Rightarrow> (Some (''failed to update service instance: '' @ err), hist1)
      | (Inr _, hist1) \<Rightarrow>
          (case doRequest ext c hist1 (deploy_request serviceID environmentID) of
             (Inl err, hist2) \<Rightarrow> (Some (''failed to deploy service instance: '' @ err), hist2)
           | (Inr _, hist2) \<Rightarrow> (None, hist2)))"

text \<open>
  The loop of \<open>UpdateServices\<close> over the services, with \<open>updatedServices\<close> and the
  requests made so far as its state. A Go slice is a list, \<open>None\<close> when nil; the
  result is the pair of the returned slice and the returned error.
\<close>

fun update_loop ::
  "externals \<Rightarrow> RailwayClient \<Rightarrow> string \<Rightarrow> string list \<Rightarrow> string \<Rightarrow> Service list \<Rightarrow> string list
     \<Rightarrow> request list \<Rightarrow> (string list option \<times> string option) \<times> request list" where
  "update_loop ext c environmentID imagePrefixes newVersion [] updatedServices hist =
     ((Some updatedServices, None), hist)"
| "update_loop ext c environmentID imagePrefixes newVersion (service # services) updatedServices hist =
     (case matchPrefix (Image service) imagePrefixes of
        None \<Rightarrow>
          update_loop ext c environmentID imagePrefixes newVersion services updatedServices hist
      | Some imagePrefix \<Rightarrow>
          (case UpdateServiceImage ext c hist (ID service) environmentID
                  (rewriteImage (Image service) imagePrefix newVersion) (NumReplicas service) of
             (Some err, hist') \<Rightarrow>
               ((Some updatedServices,
                 Some (''failed to update service '' @ Name service @ '': '' @ err)), hist')
           | (None, hist') \<Rightarrow>
               update_loop ext c environmentID imagePrefixes newVersion services
                 (updatedServices @ [Name service]) hist'))"

definition UpdateServices ::
  "externals \<Rightarrow> RailwayClient \<Rightarrow> request list \<Rightarrow> string \<Rightarrow> string list \<Rightarrow> string
     \<Rightarrow> (string list option \<times> string option) \<times> request list" where
  "UpdateServices ext c hist environmentID imagePrefixes newVersion =
     (case GetServices ext c hist environmentID of
        (Inl err, hist') \<Rightarrow> ((None, Some (''failed to get services: '' @ err)), hist')
      | (Inr services, hist') \<Rightarrow>
          update_loop ext c environmentID imagePrefixes newVersion services [] hist')"

section \<open>The HTTP handler\<close>

record http_request =
  Method :: string
  request_body :: string

datatype response_body =
    ErrorResponse string
  | SuccessResponse string "string list option"

record http_response =
  content_type :: string
  status :: nat
  body :: response_body

text \<open>
  \<open>handleUpdate\<close>: the response written and the requests made. The field
  \<open>updated_services\<close> of a success response is a slice: \<open>Some\<close> of a list is encoded as
  a JSON array, \<open>None\<close> (nil) as \<open>null\<close>.
\<close>

definition respond :: "nat \<Rightarrow> response_body \<Rightarrow> http_response" where
  "respond code b = \<lparr>content_type = ''application/json'', status = code, body = b\<rparr>"

definition handleUpdate ::
  "externals \<Rightarrow> RailwayClient \<Rightarrow> request list \<Rightarrow> http_request \<Rightarrow> http_response \<times> request list" where
  "handleUpdate ext client hist r =
     (if Method r \<noteq> ''PUT''
      then (respond 405 (ErrorResponse ''Method not allowed, use PUT''), hist)
      else (case decode_request ext (request_body r) of
        Inl err \<Rightarrow> (respond 400 (ErrorResponse (''Invalid JSON: '' @ err)), hist)
      | Inr req \<Rightarrow>
          if \<not> uuid_Parse_ok ext (ProjectID req)
          then (respond 400 (ErrorResponse ''Invalid project_id: must be a valid UUID''), hist)
          else if \<not> uuid_Parse_ok ext (EnvironmentID req)
          then (respond 400 (ErrorResponse ''Invalid environment_id: must be a valid UUID''), hist)
          else if length (ImagePrefixes req) = 0
          then (respond 400 (ErrorResponse ''image_prefixes cannot be empty''), hist)
          else if NewVersion req = []
          then (respond 400 (ErrorResponse ''new_version cannot be empty''), hist)
          else
            (case UpdateServices ext client hist (EnvironmentID req) (ImagePrefixes req)
                    (NewVersion req) of
               ((updatedServices, Some err), hist') \<Rightarrow>
                 (respond 500 (ErrorResponse (''Failed to update services: '' @ err)), hist')
             | ((updatedServices, None), hist') \<Rightarrow>
                 if length (case updatedServices of None \<Rightarrow> [] | Some names \<Rightarrow> names) = 0
                 then (respond 200
                         (SuccessResponse ''No services matched the provided image prefixes''
                            (Some [])), hist')
                 else (respond 200
                         (SuccessResponse
                            (''Successfully updated ''
                               @ string_of_nat
                                   (length (case updatedServices of None \<Rightarrow> [] | Some names \<Rightarrow> names))
                               @ '' service(s)'')
                            updatedServices), hist'))))"

section \<open>Notions used to state the properties\<close>

text \<open>
  The regions of the decoded metadata that report a positive \<open>numReplicas\<close>, each with
  its converted count, in the order of the decoded entries; empty when the metadata
  does not lead to a \<open>multiRegionConfig\<close>.
\<close>

definition positive_regions :: "externals \<Rightarrow> string option option \<Rightarrow> (string \<times> int) list" where
  "positive_regions ext latestDeployment =
     (case decode_meta ext latestDeployment of
        None \<Rightarrow> []
      | Some meta \<Rightarrow>
          (case navigate meta of
             None \<Rightarrow> []
           | Some multiRegionConfig \<Rightarrow> List.map_filter (region_replicas ext) multiRegionConfig))"

text \<open>
  The requests \<open>UpdateServices\<close> makes for one service when both remote steps are
  reached: none for a service that matches no prefix, else the update with the
  rewritten image followed by the deployment.
\<close>

definition service_requests ::
  "RailwayClient \<Rightarrow> string \<Rightarrow> string list \<Rightarrow> string \<Rightarrow> Service \<Rightarrow> request list" where
  "service_requests c environmentID imagePrefixes newVersion service =
     (case matchPrefix (Image service) imagePrefixes of
        None \<Rightarrow> []
      | Some imagePrefix \<Rightarrow>
          [update_request c (ID service) environmentID
             (rewriteImage (Image service) imagePrefix newVersion) (NumReplicas service),
           deploy_request (ID service) environmentID])"

definition matched_services :: "string list \<Rightarrow> Service list \<Rightarrow> Service list" where
  "matched_services imagePrefixes services =
     filter (\<lambda>service. matchesPrefix (Image service) imagePrefixes) services"

text \<open>
  A request succeeds after a history when \<open>doRequest\<close> returns no error for it; a
  sequence of requests succeeds when each one does after those before it.
\<close>

definition request_ok :: "externals \<Rightarrow> RailwayClient \<Rightarrow> request list \<Rightarrow> request \<Rightarrow> bool" where
  "request_ok ext c hist req = (case fst (doRequest ext c hist req) of Inl err \<Rightarrow> False | Inr data \<Rightarrow> True)"

fun all_ok :: "externals \<Rightarrow> RailwayClient \<Rightarrow> request list \<Rightarrow> request list \<Rightarrow> bool" where
  "all_ok ext c hist [] = True"
| "all_ok ext c hist (req # reqs) = (request_ok ext c hist req \<and> all_ok ext c (hist @ [req]) reqs)"

section \<open>A reference decoder and example collaborators\<close>

text \<open>
  A decoder for a fragment of JSON, to run the examples: objects (of repeated keys the
  last one stays), arrays, strings with the escapes of the quote, the backslash and the
  slash, decimal numbers without exponent (read as the number they denote), \<open>true\<close>,
  \<open>false\<close> and \<open>null\<close>. The first argument of the readers bounds the nesting.
\<close>

definition is_ws :: "char \<Rightarrow> bool" where
  "is_ws c = (c = CHR '' '' \<or> c = CHR 0x09 \<or> c = CHR 0x0A \<or> c = CHR 0x0D)"

definition skip_ws :: "string \<Rightarrow> string" where
  "skip_ws s = dropWhile is_ws s"

definition is_digit :: "char \<Rightarrow> bool" where
  "is_digit c = (48 \<le> (of_char c :: nat) \<and> (of_char c :: nat) \<le> 57)"

definition digits_value :: "string \<Rightarrow> nat" where
  "digits_value ds = foldl (\<lambda>a d. 10 * a + (of_char d - 48)) 0 ds"

fun read_string :: "string \<Rightarrow> (string \<times> string) option" where
  "read_string [] = None"
| "read_string (c # cs) =
     (if c = CHR 0x22 then Some ([], cs)
      else if (of_char c :: nat) < 32 then None
      else if c = CHR 0x5C then
        (case cs of
           [] \<Rightarrow> None
         | e # cs' \<Rightarrow>
             if e = CHR 0x22 \<or> e = CHR 0x5C \<or> e = CHR ''/''
             then (case read_string cs' of None \<Rightarrow> None | Some (t, rest) \<Rightarrow> Some (e # t, rest))
             else None)
      else (case read_string cs of None \<Rightarrow> None | Some (t, rest) \<Rightarrow> Some (c # t, rest)))"

definition read_number :: "string \<Rightarrow> (real \<times> string) option" where
  "read_number s =
     (let negative = (s \<noteq> [] \<and> hd s = CHR ''-'');
          s1 = (if negative then tl s else s);
          ds = takeWhile is_digit s1;
          s2 = dropWhile is_digit s1;
          fractional = (s2 \<noteq> [] \<and> hd s2 = CHR ''.'');
          fs = (if fractional then takeWhile is_digit (tl s2) else []);
          s3 = (if fractional then dropWhile is_digit (tl s2) else s2);
          magnitude = real (digits_value ds) + real (digits_value fs) / 10 ^ length fs
      in if ds = [] \<or> (length ds > 1 \<and> hd ds = CHR ''0'') \<or> (fractional \<and> fs = [])
            \<or> (s3 \<noteq> [] \<and> (hd s3 = CHR ''e'' \<or> hd s3 = CHR ''E''))
         then None
         else Some (if negative then - magnitude else magnitude, s3))"

fun read_value :: "nat \<Rightarrow> string \<Rightarrow> (json \<times> string) option"
  and read_members :: "nat \<Rightarrow> string \<Rightarrow> ((string \<times> json) list \<times> string) option"
  and read_elements :: "nat \<Rightarrow> string \<Rightarrow> (json list \<times> string) option" where
  "read_value 0 s = None"
| "read_value (Suc n) s =
     (case skip_ws s of
        [] \<Rightarrow> None
      | c # r \<Rightarrow>
          if c = CHR ''{'' then
            (if take 1 (skip_ws r) = ''}'' then Some (JObject [], tl (skip_ws r))
             else (case read_members n r of
                     None \<Rightarrow> None
                   | Some (kvs, rest) \<Rightarrow> Some (JObject kvs, rest)))
          else if c = CHR ''['' then
            (if take 1 (skip_ws r) = '']'' then Some (JArray [], tl (skip_ws r))
             else (case read_elements n r of
                     None \<Rightarrow> None
                   | Some (vs, rest) \<Rightarrow> Some (JArray vs, rest)))
          else if c = CHR 0x22 then
            (case read_string r of
               None \<Rightarrow> None
             | Some (t, rest) \<Rightarrow> Some (JString t, rest))
          else if take 4 (c # r) = ''null'' then Some (JNull, drop 3 r)
          else if take 4 (c # r) = ''true'' then Some (JBool True, drop 3 r)
          else if take 5 (c # r) = ''false'' then Some (JBool False, drop 4 r)
          else (case read_number (c # r) of
                  None \<Rightarrow> None
                | Some (x, rest) \<Rightarrow> Some (JNumber x, rest)))"
| "read_members 0 s = None"
| "read_members (Suc n) s =
     (case skip_ws s of
        [] \<Rightarrow> None
      | c # r \<Rightarrow>
          if c \<noteq> CHR 0x22 then None
          else (case read_string r of
                  None \<Rightarrow> None
                | Some (k, r1) \<Rightarrow>
                    if take 1 (skip_ws r1) \<noteq> '':'' then None
                    else (case read_value n (tl (skip_ws r1)) of
                            None \<Rightarrow> None
                          | Some (v, r2) \<Rightarrow>
                              if take 1 (skip_ws r2) = ''}'' then Some ([(k, v)], tl (skip_ws r2))
                              else if take 1 (skip_ws r2) = '','' then
                                (case read_members n (tl (skip_ws r2)) of
                                   None \<Rightarrow> None
                                 | Some (kvs, rest) \<Rightarrow>
                                     Some (if map_of kvs k = None then (k, v) # kvs else kvs, rest))
                              else None)))"
| "read_elements 0 s = None"
| "read_elements (Suc n) s =
     (case read_value n s of
        None \<Rightarrow> None
      | Some (v, r) \<Rightarrow>
          if take 1 (skip_ws r) = '']'' then Some ([v], tl (skip_ws r))
          else if take 1 (skip_ws r) = '','' then
            (case read_elements n (tl (skip_ws r)) of
               None \<Rightarrow> None
             | Some (vs, rest) \<Rightarrow> Some (v # vs, rest))
          else None)"

definition reference_decode :: "string \<Rightarrow> json option" where
  "reference_decode s =
     (case read_value (length s) s of
        None \<Rightarrow> None
      | Some (v, rest) \<Rightarrow> if skip_ws rest = [] then Some v else None)"

text \<open>The encoding of a text as a JSON string: quotes around it, a backslash before every quote and backslash.\<close>

definition json_quote :: "string \<Rightarrow> string" where
  "json_quote s =
     CHR 0x22 # concat (map (\<lambda>c. if c = CHR 0x22 \<or> c = CHR 0x5C then [CHR 0x5C, c] else [c]) s)
       @ [CHR 0x22]"

text \<open>
  The metadata of the examples: one region \<open>us-east4\<close> with the given \<open>numReplicas\<close>, as
  text (with the number as it is written) and as the decoded value.
\<close>

definition meta_text :: "string \<Rightarrow> string" where
  "meta_text n =
     ''{\"serviceManifest\":{\"deploy\":{\"multiRegionConfig\":{\"us-east4\":{\"numReplicas\":'' @ n @ ''}}}}}''"

definition meta_value :: "real \<Rightarrow> json" where
  "meta_value x =
     JObject [(''serviceManifest'', JObject [(''deploy'', JObject [(''multiRegionConfig'',
       JObject [(''us-east4'', JObject [(''numReplicas'', JNumber x)])])])])]"

text \<open>Metadata with two regions, \<open>us-east4\<close> and \<open>europe-west4\<close>, each with its \<open>numReplicas\<close>.\<close>

definition two_region_text :: "string \<Rightarrow> string \<Rightarrow> string" where
  "two_region_text n m =
     ''{\"serviceManifest\":{\"deploy\":{\"multiRegionConfig\":{\"us-east4\":{\"numReplicas\":'' @ n
       @ ''},\"europe-west4\":{\"numReplicas\":'' @ m @ ''}}}}}''"

text \<open>
  Stand-ins for the other collaborators, to run the examples.

  The request body is decoded as \<open>json.NewDecoder(r.Body).Decode\<close> does: the decoder
  reads the first JSON value of the body and does not look at what follows an object
  or an array (after a number or a literal only the next character is examined). An
  empty body is the error \<open>EOF\<close>; a first character that cannot begin a value is the
  error \<open>invalid character 'c' looking for beginning of value\<close>; any other value that
  cannot be read is reported as a truncated one. The value \<open>null\<close> leaves the request
  at its zero value, an object fills the fields by their names (matched exactly; a
  missing or \<open>null\<close> field or list element keeps its zero value), and a value or field
  of another type is the type error of \<open>encoding/json\<close>, reported for the first of the
  four fields in the order of the struct.

  A UUID is accepted in its canonical form of 36 characters. The remote API answers
  the environment query with a body that decodes to four service instances, three
  with the image \<open>myapp:v1.0.0\<close> and a database without image source.
\<close>

definition quote_char :: "char \<Rightarrow> string" where
  "quote_char c = [CHR 0x27, c, CHR 0x27]"

fun json_kind :: "json \<Rightarrow> string" where
  "json_kind JNull = ''null''"
| "json_kind (JBool b) = ''bool''"
| "json_kind (JNumber x) = ''number''"
| "json_kind (JString s) = ''string''"
| "json_kind (JArray vs) = ''array''"
| "json_kind (JObject kvs) = ''object''"

definition field_type_error :: "json \<Rightarrow> string \<Rightarrow> string \<Rightarrow> string" where
  "field_type_error v field ty =
     ''json: cannot unmarshal '' @ json_kind v @ '' into Go struct field UpdateRequest.'' @ field
       @ '' of type '' @ ty"

fun string_field :: "string \<Rightarrow> json option \<Rightarrow> string + string" where
  "string_field field None = Inr []"
| "string_field field (Some JNull) = Inr []"
| "string_field field (Some (JString s)) = Inr s"
| "string_field field (Some v) = Inl (field_type_error v field ''string'')"

fun string_elements :: "string \<Rightarrow> json list \<Rightarrow> string + string list" where
  "string_elements field [] = Inr []"
| "string_elements field (JString s # vs) =
     (case string_elements field vs of Inl err \<Rightarrow> Inl err | Inr ss \<Rightarrow> Inr (s # ss))"
| "string_elements field (JNull # vs) =
     (case string_elements field vs of Inl err \<Rightarrow> Inl err | Inr ss \<Rightarrow> Inr ([] # ss))"
| "string_elements field (v # vs) = Inl (field_type_error v field ''string'')"

fun strings_field :: "string \<Rightarrow> json option \<Rightarrow> string + string list" where
  "strings_field field None = Inr []"
| "strings_field field (Some JNull) = Inr []"
| "strings_field field (Some (JArray vs)) = string_elements field vs"
| "strings_field field (Some v) = Inl (field_type_error v field ''[]string'')"

fun request_of_value :: "json \<Rightarrow> string + UpdateRequest" where
  "request_of_value JNull =
     Inr \<lparr>ProjectID = [], EnvironmentID = [], ImagePrefixes = [], NewVersion = []\<rparr>"
| "request_of_value (JObject kvs) =
     (case string_field ''project_id'' (map_of kvs ''project_id'') of
        Inl err \<Rightarrow> Inl err
      | Inr p \<Rightarrow>
     (case string_field ''environment_id'' (map_of kvs ''environment_id'') of
        Inl err \<Rightarrow> Inl err
      | Inr e \<Rightarrow>
     (case strings_field ''image_prefixes'' (map_of kvs ''image_prefixes'') of
        Inl err \<Rightarrow> Inl err
      | Inr ps \<Rightarrow>
     (case string_field ''new_version'' (map_of kvs ''new_version'') of
        Inl err \<Rightarrow> Inl err
      | Inr v \<Rightarrow>
          Inr \<lparr>ProjectID = p, EnvironmentID = e, ImagePrefixes = ps, NewVersion = v\<rparr>))))"
| "request_of_value v =
     Inl (''json: cannot unmarshal '' @ json_kind v @ '' into Go value of type main.UpdateRequest'')"

fun composite :: "json \<Rightarrow> bool" where
  "composite (JObject kvs) = True"
| "composite (JArray vs) = True"
| "composite v = False"

definition example_decode_request :: "string \<Rightarrow> string + UpdateRequest" where
  "example_decode_request b =
     (case skip_ws b of
        [] \<Rightarrow> Inl ''EOF''
      | c # r \<Rightarrow>
          if c \<notin> set ''{[\"-0123456789tfn''
          then Inl (''invalid character '' @ quote_char c @ '' looking for beginning of value'')
          else (case read_value (length b) b of
                  None \<Rightarrow> Inl ''unexpected EOF''
                | Some (v, rest) \<Rightarrow>
                    if \<not> composite v \<and> rest \<noteq> [] \<and> \<not> is_ws (hd rest)
                    then Inl (''invalid character '' @ quote_char (hd rest)
                                @ '' after top-level value'')
                    else request_of_value v))"

text \<open>
  A body is malformed JSON, in the words of the specification, when it is not one
  JSON value with nothing but white space around it; on the fragment of the reference
  decoder, when that decoder rejects it.
\<close>

definition spec_malformed_json :: "string \<Rightarrow> bool" where
  "spec_malformed_json b = (reference_decode b = None)"

definition example_uuid_ok :: "string \<Rightarrow> bool" where
  "example_uuid_ok s =
     (length s = 36 \<and>
      list_all (\<lambda>(i, ch). if i \<in> set [8, 13, 18, 23] then ch = CHR ''-''
                           else is_digit ch \<or> ch \<in> set ''abcdefABCDEF'')
        (zip [0..<36] s))"

definition example_edges :: "node list" where
  "example_edges =
     [\<lparr>NodeID = ''inst-a'', ServiceID = ''svc-a'', ServiceName = ''api'',
        LatestDeployment = Some (Some (meta_text ''3'')), SourceImage = ''myapp:v1.0.0'',
        SourceRepo = []\<rparr>,
      \<lparr>NodeID = ''inst-d'', ServiceID = ''svc-d'', ServiceName = ''database'',
        LatestDeployment = None, SourceImage = [], SourceRepo = []\<rparr>,
      \<lparr>NodeID = ''inst-b'', ServiceID = ''svc-b'', ServiceName = ''worker'',
        LatestDeployment = Some (Some (json_quote (meta_text ''2''))), SourceImage = ''myapp:v1.0.0'',
        SourceRepo = []\<rparr>,
      \<lparr>NodeID = ''inst-c'', ServiceID = ''svc-c'', ServiceName = ''web'',
        LatestDeployment = None, SourceImage = ''myapp:v1.0.0'', SourceRepo = []\<rparr>]"

text \<open>The services \<open>GetServices\<close> makes of these edges.\<close>

definition example_services :: "Service list" where
  "example_services =
     [\<lparr>ID = ''svc-a'', Name = ''api'', Image = ''myapp:v1.0.0'', NumReplicas = 3\<rparr>,
      \<lparr>ID = ''svc-b'', Name = ''worker'', Image = ''myapp:v1.0.0'', NumReplicas = 2\<rparr>,
      \<lparr>ID = ''svc-c'', Name = ''web'', Image = ''myapp:v1.0.0'', NumReplicas = 1\<rparr>]"

definition example_decode_environment :: "string \<Rightarrow> string + node list" where
  "example_decode_environment d =
     (if d = ''edges'' then Inr example_edges else Inl ''unexpected end of JSON input'')"

definition example_decode_graphql :: "string \<Rightarrow> string + GraphQLResponse" where
  "example_decode_graphql b =
     (if b = [] then Inl ''unexpected end of JSON input'' else Inr \<lparr>Data = b, Errors = []\<rparr>)"

text \<open>
  A remote API that answers every request with status 200, and one that answers the
  update of the given service with status 500.
\<close>

definition healthy_transport :: "request list \<Rightarrow> string \<Rightarrow> request \<Rightarrow> transport_result" where
  "healthy_transport hist tok req =
     (case req of
        EnvironmentQuery e \<Rightarrow> Http_response 200 ''edges''
      | ServiceInstanceUpdate e s i n cr \<Rightarrow> Http_response 200 ''true''
      | ServiceInstanceDeploy s e l \<Rightarrow> Http_response 200 ''true'')"

definition failing_transport :: "string \<Rightarrow> request list \<Rightarrow> string \<Rightarrow> request \<Rightarrow> transport_result" where
  "failing_transport failing hist tok req =
     (case req of
        EnvironmentQuery e \<Rightarrow> Http_response 200 ''edges''
      | ServiceInstanceUpdate e s i n cr \<Rightarrow>
          if s = failing then Http_response 500 ''Internal Server Error''
          else Http_response 200 ''true''
      | ServiceInstanceDeploy s e l \<Rightarrow> Http_response 200 ''true'')"

definition example_externals ::
  "((string \<times> json) list \<Rightarrow> (string \<times> json) list)
     \<Rightarrow> (request list \<Rightarrow> string \<Rightarrow> request \<Rightarrow> transport_result) \<Rightarrow> externals" where
  "example_externals ord tr =
     \<lparr>json_decode = reference_decode, range_order = ord,
      float64_out_of_range = (\<lambda>x. - (2 ^ 63)), transport = tr,
      decode_graphql = example_decode_graphql, decode_environment = example_decode_environment,
      decode_request = example_decode_request, uuid_Parse_ok = example_uuid_ok\<rparr>"

definition example_client :: RailwayClient where
  "example_client = \<lparr>token = ''test-token'', registryCredentialUser = [], registryCredentialPass = []\<rparr>"

text \<open>The body of an update request, with the prefix list as JSON text.\<close>

definition update_body :: "string \<Rightarrow> string \<Rightarrow> string \<Rightarrow> string \<Rightarrow> string" where
  "update_body p e ps v =
     ''{\"project_id\":\"'' @ p @ ''\",\"environment_id\":\"'' @ e @ ''\",\"image_prefixes\":'' @ ps
       @ '',\"new_version\":\"'' @ v @ ''\"}''"

section \<open>Properties of the matcher\<close>

lemma HasPrefix_iff_prefix: "HasPrefix s p \<longleftrightarrow> prefix p s"
  unfolding HasPrefix_def prefix_def
  by (metis append_eq_conv_conj append_take_drop_id le_add1 length_append)

lemma matchesPrefix_iff: "matchesPrefix img ps \<longleftrightarrow> (\<exists>p \<in> set ps. prefix p img)"
  by (induction ps) (auto simp: HasPrefix_iff_prefix)

lemma matchPrefix_None_iff: "matchPrefix img ps = None \<longleftrightarrow> \<not> matchesPrefix img ps"
  by (induction ps) auto

lemma matchPrefix_Some_iff:
  "matchPrefix img ps = Some p \<longleftrightarrow>
     (\<exists>pre post. ps = pre @ p # post \<and> prefix p img \<and> (\<forall>q \<in> set pre. \<not> prefix q img))"
proof (induction ps)
  case Nil
  then show ?case by simp
next
  case (Cons a ps)
  let ?R = "\<lambda>xs. \<exists>pre post. xs = pre @ p # post \<and> prefix p img \<and> (\<forall>q \<in> set pre. \<not> prefix q img)"
  show ?case
  proof (cases "prefix a img")
    case True
    have "?R (a # ps) \<longleftrightarrow> a = p"
    proof
      assume "?R (a # ps)"
      then obtain pre post where h: "a # ps = pre @ p # post" "\<forall>q \<in> set pre. \<not> prefix q img"
        by blast
      show "a = p"
      proof (cases pre)
        case Nil
        with h show ?thesis by simp
      next
        case (Cons b pre')
        with h True show ?thesis by auto
      qed
    next
      assume "a = p"
      with True have "a # ps = [] @ p # ps \<and> prefix p img \<and> (\<forall>q \<in> set []. \<not> prefix q img)"
        by simp
      then show "?R (a # ps)" by blast
    qed
    with True show ?thesis by (simp add: HasPrefix_iff_prefix)
  next
    case False
    have "?R (a # ps) \<longleftrightarrow> ?R ps"
    proof
      assume "?R (a # ps)"
      then obtain pre post where h: "a # ps = pre @ p # post" "prefix p img"
        "\<forall>q \<in> set pre. \<not> prefix q img"
        by blast
      show "?R ps"
      proof (cases pre)
        case Nil
        with h False show ?thesis by simp
      next
        case (Cons b pre')
        with h have "ps = pre' @ p # post \<and> prefix p img \<and> (\<forall>q \<in> set pre'. \<not> prefix q img)"
          by simp
        then show ?thesis by blast
      qed
    next
      assume "?R ps"
      then obtain pre post where h: "ps = pre @ p # post" "prefix p img"
        "\<forall>q \<in> set pre. \<not> prefix q img"
        by blast
      with False have "a # ps = (a # pre) @ p # post \<and> prefix p img
          \<and> (\<forall>q \<in> set (a # pre). \<not> prefix q img)"
        by simp
      then show "?R (a # ps)" by blast
    qed
    with False Cons.IH show ?thesis by (simp add: HasPrefix_iff_prefix)
  qed
qed

text \<open>
  Claim C6. The matcher returns true exactly when the image starts with at least one
  prefix of the list, compared literally byte by byte; the loop of the updater
  matches in exactly the same cases, and the prefix it records is the first one of the
  list the image starts with: no prefix before it in the list applies. On the
  examples: \<open>myapp:v1\<close> matches \<open>[myapp]\<close> and \<open>[myapp, otherapp]\<close> (recording
  \<open>myapp\<close>), and \<open>otherapp:v1\<close> does not match \<open>[myapp]\<close>.
\<close>

theorem matcher_first_applicable_prefix:
  "(matchesPrefix img ps \<longleftrightarrow> (\<exists>p \<in> set ps. prefix p img))
   \<and> (matchPrefix img ps \<noteq> None \<longleftrightarrow> matchesPrefix img ps)
   \<and> (\<forall>p. matchPrefix img ps = Some p \<longleftrightarrow>
          (\<exists>pre post. ps = pre @ p # post \<and> prefix p img \<and> (\<forall>q \<in> set pre. \<not> prefix q img)))
   \<and> matchesPrefix ''myapp:v1'' [''myapp'']
   \<and> \<not> matchesPrefix ''otherapp:v1'' [''myapp'']
   \<and> matchesPrefix ''myapp:v1'' [''myapp'', ''otherapp'']
   \<and> matchPrefix ''myapp:v1'' [''myapp'', ''otherapp''] = Some ''myapp''"
proof -
  have examples: "matchesPrefix ''myapp:v1'' [''myapp'']
      \<and> \<not> matchesPrefix ''otherapp:v1'' [''myapp'']
      \<and> matchesPrefix ''myapp:v1'' [''myapp'', ''otherapp'']
      \<and> matchPrefix ''myapp:v1'' [''myapp'', ''otherapp''] = Some ''myapp''"
    by (simp add: HasPrefix_def)
  have "matchPrefix img ps \<noteq> None \<longleftrightarrow> matchesPrefix img ps"
    by (simp add: matchPrefix_None_iff)
  with examples show ?thesis
    using matchesPrefix_iff [of img ps] matchPrefix_Some_iff [of img ps] by blast
qed

theorem matcher_first_applicable_prefix_witness:
  "matchesPrefix ''otherapp:v1.0.0'' [''myapp'', ''other'', ''otherapp'']
   \<and> (\<exists>p \<in> set [''myapp'', ''other'', ''otherapp'']. prefix p ''otherapp:v1.0.0'')
   \<and> matchPrefix ''otherapp:v1.0.0'' [''myapp'', ''other'', ''otherapp''] = Some ''other''
   \<and> (\<exists>pre post. [''myapp'', ''other'', ''otherapp''] = pre @ ''other'' # post
         \<and> prefix ''other'' ''otherapp:v1.0.0''
         \<and> (\<forall>q \<in> set pre. \<not> prefix q ''otherapp:v1.0.0''))"
proof -
  have m: "matchPrefix ''otherapp:v1.0.0'' [''myapp'', ''other'', ''otherapp''] = Some ''other''"
    by (simp add: HasPrefix_def)
  have e: "\<exists>p \<in> set [''myapp'', ''other'', ''otherapp'']. prefix p ''otherapp:v1.0.0''"
    by simp
  from m e show ?thesis
    using matcher_first_applicable_prefix
      [of "''otherapp:v1.0.0''" "[''myapp'', ''other'', ''otherapp'']"]
    by blast
qed

section \<open>Properties of the tag rewrite\<close>

lemma Split_no_sep: "sep \<notin> set s \<Longrightarrow> Split s sep = [s]"
proof -
  assume "sep \<notin> set s"
  then have d: "dropWhile (\<lambda>c. c \<noteq> sep) s = []"
    by (auto simp: dropWhile_eq_Nil_conv)
  show ?thesis by (subst Split.simps, subst d, simp)
qed

lemma Split_sep:
  assumes "sep \<in> set s"
  shows "Split s sep
    = takeWhile (\<lambda>c. c \<noteq> sep) s # Split (tl (dropWhile (\<lambda>c. c \<noteq> sep) s)) sep"
proof -
  from assms have "dropWhile (\<lambda>c. c \<noteq> sep) s \<noteq> []"
    by (auto simp: dropWhile_eq_Nil_conv)
  then obtain c rest where d: "dropWhile (\<lambda>c. c \<noteq> sep) s = c # rest"
    by (cases "dropWhile (\<lambda>c. c \<noteq> sep) s") auto
  show ?thesis by (subst Split.simps, subst d, subst d, simp)
qed

lemma Split_nonempty: "Split s sep \<noteq> []"
  by (cases "sep \<in> set s") (simp_all add: Split_no_sep Split_sep)

text \<open>What the substitution computes: the text before the first \<open>:\<close> is kept.\<close>

lemma tagSubstitute_first_colon:
  "tagSubstitute img v =
     (if CHR '':'' \<in> set img then takeWhile (\<lambda>c. c \<noteq> CHR '':'') img @ '':'' @ v
      else img @ '':'' @ v)"
proof (cases "CHR '':'' \<in> set img")
  case True
  have "length (Split (tl (dropWhile (\<lambda>c. c \<noteq> CHR '':'') img)) CHR '':'') > 0"
    using Split_nonempty by blast
  with True show ?thesis by (simp add: tagSubstitute_def Let_def Split_sep)
next
  case False
  then show ?thesis by (simp add: tagSubstitute_def Let_def Split_no_sep)
qed

text \<open>On an image with at most one \<open>:\<close> the substitution is the rewrite of the specification.\<close>

lemma tagSubstitute_at_most_one_colon:
  assumes "count_list img CHR '':'' \<le> 1"
  shows "tagSubstitute img v = spec_tagRewrite img v"
proof (cases "CHR '':'' \<in> set img")
  case False
  then show ?thesis by (simp add: tagSubstitute_first_colon spec_tagRewrite_def)
next
  case True
  let ?P = "\<lambda>c. c \<noteq> CHR '':''"
  from True have "dropWhile ?P img \<noteq> []"
    by (auto simp: dropWhile_eq_Nil_conv)
  then obtain c rest where d: "dropWhile ?P img = c # rest"
    by (cases "dropWhile ?P img") auto
  then have c: "c = CHR '':''"
    using hd_dropWhile [of ?P img] by auto
  have img: "img = takeWhile ?P img @ CHR '':'' # rest"
    using d c takeWhile_dropWhile_id [of ?P img] by simp
  have t0: "count_list (takeWhile ?P img) CHR '':'' = 0"
    by (auto simp: count_list_0_iff dest: set_takeWhileD)
  have "count_list img CHR '':''
      = count_list (takeWhile ?P img) CHR '':'' + Suc (count_list rest CHR '':'')"
    by (subst img) (simp only: count_list_append count_list.simps, simp)
  with assms t0 have "count_list rest CHR '':'' = 0" by simp
  then have r: "CHR '':'' \<notin> set rest" by (simp add: count_list_0_iff)
  have "rev img = rev rest @ CHR '':'' # rev (takeWhile ?P img)"
    by (subst img) simp
  then have "dropWhile ?P (rev img) = CHR '':'' # rev (takeWhile ?P img)"
    using r by (auto simp: dropWhile_append3)
  then have "rev (tl (dropWhile ?P (rev img))) = takeWhile ?P img" by simp
  with True show ?thesis by (simp add: tagSubstitute_first_colon spec_tagRewrite_def)
qed

text \<open>
  Claim C1. The examples of the claim hold: \<open>myapp:v1.0.0\<close> and \<open>myapp\<close> with version
  \<open>v2\<close> are both rewritten to \<open>myapp:v2\<close>. On an image with a second \<open>:\<close> the code
  departs from the claim: for the image \<open>localhost:5000/myapp:v1\<close>, matched by the
  prefix \<open>localhost\<close>, the claim asks for \<open>localhost:5000/myapp:v2\<close> (everything after
  the last \<open>:\<close> replaced), while the substitution keeps only the text before the first
  \<open>:\<close> and the image sent is \<open>localhost:v2\<close>.
\<close>

theorem tag_rewrite_cuts_at_first_colon:
  "tagSubstitute ''myapp:v1.0.0'' ''v2'' = ''myapp:v2''
   \<and> tagSubstitute ''myapp'' ''v2'' = ''myapp:v2''
   \<and> matchPrefix ''localhost:5000/myapp:v1'' [''localhost''] = Some ''localhost''
   \<and> spec_tagRewrite ''localhost:5000/myapp:v1'' ''v2'' = ''localhost:5000/myapp:v2''
   \<and> tagSubstitute ''localhost:5000/myapp:v1'' ''v2'' = ''localhost:v2''
   \<and> rewriteImage ''localhost:5000/myapp:v1'' ''localhost'' ''v2'' = ''localhost:v2''"
  by (simp add: tagSubstitute_first_colon spec_tagRewrite_def rewriteImage_def HasPrefix_def)

section \<open>Properties of the update loop\<close>

lemma doRequest_hist: "snd (doRequest ext c hist req) = hist @ [req]"
  by (simp add: doRequest_def)

lemma doRequest_cases:
  obtains err where "doRequest ext c hist req = (Inl err, hist @ [req])"
  | data where "doRequest ext c hist req = (Inr data, hist @ [req])"
proof (cases "fst (doRequest ext c hist req)")
  case (Inl err)
  with doRequest_hist [of ext c hist req] have "doRequest ext c hist req = (Inl err, hist @ [req])"
    by (metis prod.collapse)
  then show ?thesis by (rule that(1))
next
  case (Inr data)
  with doRequest_hist [of ext c hist req] have "doRequest ext c hist req = (Inr data, hist @ [req])"
    by (metis prod.collapse)
  then show ?thesis by (rule that(2))
qed

lemma UpdateServiceImage_hist:
  "\<exists>more. snd (UpdateServiceImage ext c hist sid env img n)
     = hist @ update_request c sid env img n # more"
proof -
  let ?u = "update_request c sid env img n"
  show ?thesis
  proof (cases rule: doRequest_cases [of ext c hist ?u])
    case (1 err)
    then show ?thesis by (simp add: UpdateServiceImage_def)
  next
    case (2 data)
    show ?thesis
      by (cases rule: doRequest_cases [of ext c "hist @ [?u]" "deploy_request sid env"])
        (simp_all add: UpdateServiceImage_def 2)
  qed
qed

lemma update_loop_hist:
  "\<exists>more. snd (update_loop ext c env ps v svcs upd hist) = hist @ more"
proof (induction svcs arbitrary: upd hist)
  case Nil
  then show ?case by simp
next
  case (Cons s svcs)
  show ?case
  proof (cases "matchPrefix (Image s) ps")
    case None
    with Cons.IH show ?thesis by simp
  next
    case (Some p)
    let ?img = "rewriteImage (Image s) p v"
    obtain e h where u: "UpdateServiceImage ext c hist (ID s) env ?img (NumReplicas s) = (e, h)"
      by (cases "UpdateServiceImage ext c hist (ID s) env ?img (NumReplicas s)")
    obtain more where h: "h = hist @ update_request c (ID s) env ?img (NumReplicas s) # more"
      using UpdateServiceImage_hist [of ext c hist "ID s" env ?img "NumReplicas s"] u by auto
    show ?thesis
    proof (cases e)
      case None
      obtain more' where "snd (update_loop ext c env ps v svcs (upd @ [Name s]) h) = h @ more'"
        using Cons.IH by blast
      with Some u None h show ?thesis by simp
    next
      case (Some err)
      with \<open>matchPrefix (Image s) ps = Some p\<close> u h show ?thesis by simp
    qed
  qed
qed

lemma update_loop_first_request:
  assumes "matchPrefix (Image s) ps = Some p"
  shows "\<exists>more. snd (update_loop ext c env ps v (s # svcs) upd hist)
     = hist @ update_request c (ID s) env (rewriteImage (Image s) p v) (NumReplicas s) # more"
proof -
  let ?img = "rewriteImage (Image s) p v"
  obtain e h where u: "UpdateServiceImage ext c hist (ID s) env ?img (NumReplicas s) = (e, h)"
    by (cases "UpdateServiceImage ext c hist (ID s) env ?img (NumReplicas s)")
  obtain more where h: "h = hist @ update_request c (ID s) env ?img (NumReplicas s) # more"
    using UpdateServiceImage_hist [of ext c hist "ID s" env ?img "NumReplicas s"] u by auto
  show ?thesis
  proof (cases e)
    case None
    obtain more' where "snd (update_loop ext c env ps v svcs (upd @ [Name s]) h) = h @ more'"
      using update_loop_hist by blast
    with assms u None h show ?thesis by simp
  next
    case (Some err)
    with assms u h show ?thesis by simp
  qed
qed

text \<open>
  Claim C5. For a service matched with prefix \<open>p\<close>: when the tag-substituted image
  does not start with \<open>p\<close>, the rewritten image is \<open>p\<close> followed by \<open>:\<close> and the
  version; otherwise it is the tag-substituted image unchanged. The rewritten image is
  the one in the update request the loop makes for the service.
\<close>

theorem rewrite_falls_back_to_prefix:
  assumes "matchPrefix (Image s) ps = Some p"
  shows "(\<not> prefix p (tagSubstitute (Image s) v) \<longrightarrow> rewriteImage (Image s) p v = p @ '':'' @ v)
    \<and> (prefix p (tagSubstitute (Image s) v) \<longrightarrow> rewriteImage (Image s) p v = tagSubstitute (Image s) v)
    \<and> (\<exists>more. snd (update_loop ext c env ps v (s # svcs) upd hist)
          = hist @ update_request c (ID s) env (rewriteImage (Image s) p v) (NumReplicas s) # more)"
proof -
  have "\<not> prefix p (tagSubstitute (Image s) v) \<longrightarrow> rewriteImage (Image s) p v = p @ '':'' @ v"
    by (simp add: rewriteImage_def Let_def HasPrefix_iff_prefix)
  moreover have "prefix p (tagSubstitute (Image s) v)
      \<longrightarrow> rewriteImage (Image s) p v = tagSubstitute (Image s) v"
    by (simp add: rewriteImage_def Let_def HasPrefix_iff_prefix)
  ultimately show ?thesis
    using update_loop_first_request [OF assms] by blast
qed

theorem rewrite_falls_back_to_prefix_witness:
  "matchPrefix ''localhost:5000/myapp:v1'' [''localhost:5000/myapp''] = Some ''localhost:5000/myapp''
   \<and> \<not> prefix ''localhost:5000/myapp'' (tagSubstitute ''localhost:5000/myapp:v1'' ''v2'')
   \<and> rewriteImage ''localhost:5000/myapp:v1'' ''localhost:5000/myapp'' ''v2'' = ''localhost:5000/myapp:v2''
   \<and> matchPrefix ''myapp:v1.0.0'' [''myapp''] = Some ''myapp''
   \<and> prefix ''myapp'' (tagSubstitute ''myapp:v1.0.0'' ''v2'')
   \<and> rewriteImage ''myapp:v1.0.0'' ''myapp'' ''v2'' = ''myapp:v2''"
proof -
  let ?r = "\<lparr>ID = ''svc-r'', Name = ''registry'', Image = ''localhost:5000/myapp:v1'', NumReplicas = 1\<rparr>"
  let ?m = "\<lparr>ID = ''svc-a'', Name = ''api'', Image = ''myapp:v1.0.0'', NumReplicas = 1\<rparr>"
  have r: "matchPrefix (Image ?r) [''localhost:5000/myapp''] = Some ''localhost:5000/myapp''"
    by (simp add: HasPrefix_def)
  have m: "matchPrefix (Image ?m) [''myapp''] = Some ''myapp''"
    by (simp add: HasPrefix_def)
  have tr: "tagSubstitute ''localhost:5000/myapp:v1'' ''v2'' = ''localhost:v2''"
    by (simp add: tagSubstitute_first_colon)
  have tm: "tagSubstitute ''myapp:v1.0.0'' ''v2'' = ''myapp:v2''"
    by (simp add: tagSubstitute_first_colon)
  from rewrite_falls_back_to_prefix [OF r, of "''v2''"] rewrite_falls_back_to_prefix [OF m, of "''v2''"]
  show ?thesis using r m by (simp add: tr tm)
qed

section \<open>Properties of replica resolution\<close>

lemma scan_regions_map_filter:
  "scan_regions ext xs = (case List.map_filter (region_replicas ext) xs of [] \<Rightarrow> None | a # _ \<Rightarrow> Some a)"
  by (induction xs) (auto simp: List.map_filter_simps split: option.splits)

lemma set_map_filter: "set (List.map_filter f xs) = {y. \<exists>x \<in> set xs. f x = Some y}"
  by (induction xs) (auto simp: List.map_filter_simps split: option.splits)

lemma set_map_filter_perm:
  "mset xs = mset ys \<Longrightarrow> set (List.map_filter f xs) = set (List.map_filter f ys)"
  using mset_eq_setD [of xs ys] by (simp add: set_map_filter)

lemma scan_regions_None_iff:
  "scan_regions ext xs = None \<longleftrightarrow> List.map_filter (region_replicas ext) xs = []"
  by (simp add: scan_regions_map_filter split: list.splits)

lemma scan_regions_Some_in:
  "scan_regions ext xs = Some a \<Longrightarrow> a \<in> set (List.map_filter (region_replicas ext) xs)"
  by (auto simp: scan_regions_map_filter split: list.splits)

lemma scan_regions_perm:
  assumes "mset xs = mset ys"
  shows "(scan_regions ext xs = None \<longleftrightarrow> List.map_filter (region_replicas ext) ys = [])"
    and "scan_regions ext xs = Some a \<Longrightarrow> a \<in> set (List.map_filter (region_replicas ext) ys)"
proof -
  have s: "set (List.map_filter (region_replicas ext) xs) = set (List.map_filter (region_replicas ext) ys)"
    using assms by (rule set_map_filter_perm)
  then show "scan_regions ext xs = None \<longleftrightarrow> List.map_filter (region_replicas ext) ys = []"
    by (simp add: scan_regions_None_iff flip: set_empty)
  show "scan_regions ext xs = Some a \<Longrightarrow> a \<in> set (List.map_filter (region_replicas ext) ys)"
    using s scan_regions_Some_in by blast
qed

lemma float64_to_int_range_order:
  "float64_to_int (ext\<lparr>range_order := ord\<rparr>) = float64_to_int ext"
  by (rule ext) (simp add: float64_to_int_def)

lemma region_replicas_range_order [simp]:
  "region_replicas (ext\<lparr>range_order := ord\<rparr>) = region_replicas ext"
  unfolding region_replicas_def float64_to_int_range_order ..

lemma scan_regions_range_order [simp]:
  "scan_regions (ext\<lparr>range_order := ord\<rparr>) xs = scan_regions ext xs"
  by (induction xs) (simp_all split: option.splits)

lemma unmarshal_range_order:
  "unmarshal_map (ext\<lparr>range_order := ord\<rparr>) = unmarshal_map ext"
  "unmarshal_string (ext\<lparr>range_order := ord\<rparr>) = unmarshal_string ext"
  by (rule ext, simp add: unmarshal_map_def unmarshal_string_def)+

lemma decode_meta_range_order [simp]:
  "decode_meta (ext\<lparr>range_order := ord\<rparr>) ld = decode_meta ext ld"
  unfolding decode_meta_def unmarshal_range_order ..

text \<open>The result of a run whose \<open>range\<close> statement visits the entries in the order \<open>ord\<close>.\<close>

lemma resolveReplica_run:
  assumes "\<forall>m. mset (ord m) = mset m"
  shows "(positive_regions ext ld = [] \<longrightarrow> resolveReplica (ext\<lparr>range_order := ord\<rparr>) name ld = (None, 1))
    \<and> (positive_regions ext ld \<noteq> [] \<longrightarrow>
         (\<exists>a \<in> set (positive_regions ext ld).
            resolveReplica (ext\<lparr>range_order := ord\<rparr>) name ld = (Some (fst a), snd a)))"
proof (cases "decode_meta ext ld")
  case None
  then show ?thesis by (simp add: positive_regions_def resolveReplica_def)
next
  case (Some meta)
  show ?thesis
  proof (cases "navigate meta")
    case None
    with Some show ?thesis by (simp add: positive_regions_def resolveReplica_def)
  next
    case (Some cfg)
    from assms have p: "mset (ord cfg) = mset cfg" by simp
    have pr: "positive_regions ext ld = List.map_filter (region_replicas ext) cfg"
      using \<open>decode_meta ext ld = Some meta\<close> Some by (simp add: positive_regions_def)
    have rr: "resolveReplica (ext\<lparr>range_order := ord\<rparr>) name ld
        = (case scan_regions ext (ord cfg) of Some (region, replicas) \<Rightarrow> (Some region, replicas) | None \<Rightarrow> (None, 1))"
      using \<open>decode_meta ext ld = Some meta\<close> Some by (simp add: resolveReplica_def)
    show ?thesis
    proof (cases "scan_regions ext (ord cfg)")
      case None
      with scan_regions_perm(1) [OF p] have "positive_regions ext ld = []" by (simp add: pr)
      with None rr show ?thesis by simp
    next
      case (Some a)
      with scan_regions_perm(2) [OF p] have a: "a \<in> set (positive_regions ext ld)" by (simp add: pr)
      then have "positive_regions ext ld \<noteq> []" by auto
      moreover have "resolveReplica (ext\<lparr>range_order := ord\<rparr>) name ld = (Some (fst a), snd a)"
        using Some rr by (cases a) simp
      ultimately show ?thesis using a by blast
    qed
  qed
qed

text \<open>
  Claim C4, as amended. The order in which the loop visits the regions is not fixed:
  it is whatever order the \<open>range\<close> statement takes, and may differ between two runs
  on the same metadata. For any two such orders: when all regions that report a positive
  \<open>numReplicas\<close> report the same count, both runs return the same replica count; when
  at most one region reports a positive \<open>numReplicas\<close>, both runs also select the same
  region. In every run the result is the default 1 when no region reports a positive
  \<open>numReplicas\<close>, and otherwise the region and count of one of those that do.
\<close>

theorem replica_count_fixed_when_regions_agree:
  assumes "\<forall>m. mset (ord1 m) = mset m" and "\<forall>m. mset (ord2 m) = mset m"
  shows "((\<forall>a \<in> set (positive_regions ext ld). \<forall>b \<in> set (positive_regions ext ld). snd a = snd b) \<longrightarrow>
            resolveReplicaCount (ext\<lparr>range_order := ord1\<rparr>) name ld
              = resolveReplicaCount (ext\<lparr>range_order := ord2\<rparr>) name ld)
    \<and> ((\<forall>a \<in> set (positive_regions ext ld). \<forall>b \<in> set (positive_regions ext ld). a = b) \<longrightarrow>
            resolveReplica (ext\<lparr>range_order := ord1\<rparr>) name ld
              = resolveReplica (ext\<lparr>range_order := ord2\<rparr>) name ld)
    \<and> (positive_regions ext ld = [] \<longrightarrow> resolveReplica (ext\<lparr>range_order := ord1\<rparr>) name ld = (None, 1))
    \<and> (positive_regions ext ld \<noteq> [] \<longrightarrow>
         (\<exists>a \<in> set (positive_regions ext ld).
            resolveReplica (ext\<lparr>range_order := ord1\<rparr>) name ld = (Some (fst a), snd a)))"
proof -
  let ?P = "positive_regions ext ld"
  let ?r1 = "resolveReplica (ext\<lparr>range_order := ord1\<rparr>) name ld"
  let ?r2 = "resolveReplica (ext\<lparr>range_order := ord2\<rparr>) name ld"
  note run1 = resolveReplica_run [OF assms(1), of ext ld name]
  note run2 = resolveReplica_run [OF assms(2), of ext ld name]
  have same: "?r1 = ?r2" if "?P = []"
    using that run1 run2 by simp
  have pick: "\<exists>a \<in> set ?P. \<exists>b \<in> set ?P. ?r1 = (Some (fst a), snd a) \<and> ?r2 = (Some (fst b), snd b)"
    if "?P \<noteq> []"
  proof -
    from that run1 obtain a where "a \<in> set ?P" "?r1 = (Some (fst a), snd a)" by blast
    moreover from that run2 obtain b where "b \<in> set ?P" "?r2 = (Some (fst b), snd b)" by blast
    ultimately show ?thesis by blast
  qed
  have 1: "snd ?r1 = snd ?r2" if h: "\<forall>a \<in> set ?P. \<forall>b \<in> set ?P. snd a = snd b"
  proof (cases "?P = []")
    case True
    then show ?thesis using same by simp
  next
    case False
    from pick [OF False] obtain a b where ab: "a \<in> set ?P" "b \<in> set ?P"
      "?r1 = (Some (fst a), snd a)" "?r2 = (Some (fst b), snd b)" by blast
    from h ab(1,2) have "snd a = snd b" by blast
    with ab(3,4) show ?thesis by simp
  qed
  have 2: "?r1 = ?r2" if h: "\<forall>a \<in> set ?P. \<forall>b \<in> set ?P. a = b"
  proof (cases "?P = []")
    case True
    then show ?thesis using same by simp
  next
    case False
    from pick [OF False] obtain a b where ab: "a \<in> set ?P" "b \<in> set ?P"
      "?r1 = (Some (fst a), snd a)" "?r2 = (Some (fst b), snd b)" by blast
    from h ab(1,2) have "a = b" by blast
    with ab(3,4) show ?thesis by simp
  qed
  have c1: "(\<forall>a \<in> set ?P. \<forall>b \<in> set ?P. snd a = snd b) \<longrightarrow>
      resolveReplicaCount (ext\<lparr>range_order := ord1\<rparr>) name ld
        = resolveReplicaCount (ext\<lparr>range_order := ord2\<rparr>) name ld"
  proof
    assume "\<forall>a \<in> set ?P. \<forall>b \<in> set ?P. snd a = snd b"
    then have "snd ?r1 = snd ?r2" by (rule 1)
    then show "resolveReplicaCount (ext\<lparr>range_order := ord1\<rparr>) name ld
        = resolveReplicaCount (ext\<lparr>range_order := ord2\<rparr>) name ld"
      by (simp only: resolveReplicaCount_def)
  qed
  have c2: "(\<forall>a \<in> set ?P. \<forall>b \<in> set ?P. a = b) \<longrightarrow> ?r1 = ?r2"
  proof
    assume "\<forall>a \<in> set ?P. \<forall>b \<in> set ?P. a = b"
    then show "?r1 = ?r2" by (rule 2)
  qed
  from run1 have c3: "?P = [] \<longrightarrow> ?r1 = (None, 1)" by (rule conjunct1)
  from run1 have c4: "?P \<noteq> [] \<longrightarrow> (\<exists>a \<in> set ?P. ?r1 = (Some (fst a), snd a))"
    by (rule conjunct2)
  from c1 c2 c3 c4 show ?thesis by (intro conjI)
qed

lemma perm_singleton: "\<forall>m. mset (ord m) = mset m \<Longrightarrow> ord [x] = [x]"
  by (metis mset.simps(1) mset.simps(2) mset_single_iff_right)

lemma navigate_meta_value:
  "navigate [(''serviceManifest'', JObject [(''deploy'', JObject [(''multiRegionConfig'',
       JObject cfg)])])] = Some cfg"
  by (simp add: navigate_def)

lemma resolve_single_region:
  assumes perm: "\<forall>m. mset (range_order ext m) = mset m"
    and d: "json_decode ext raw = Some (meta_value x)"
  shows "resolveReplica ext name (Some (Some raw))
    = (if x > 0 then (Some ''us-east4'', float64_to_int ext x) else (None, 1))"
proof -
  have "decode_meta ext (Some (Some raw)) = Some [(''serviceManifest'', JObject [(''deploy'', JObject [(''multiRegionConfig'',
       JObject [(''us-east4'', JObject [(''numReplicas'', JNumber x)])])])])]"
    using d by (simp add: decode_meta_def unmarshal_map_def meta_value_def)
  moreover have "range_order ext [(''us-east4'', JObject [(''numReplicas'', JNumber x)])]
      = [(''us-east4'', JObject [(''numReplicas'', JNumber x)])]"
    using perm by (rule perm_singleton)
  ultimately show ?thesis
    by (simp add: resolveReplica_def navigate_meta_value region_replicas_def)
qed

lemma resolve_double_encoded:
  assumes "json_decode ext raw = Some (JObject kvs)"
    and "json_decode ext quoted = Some (JString raw)"
  shows "resolveReplica ext name (Some (Some quoted)) = resolveReplica ext name (Some (Some raw))"
  using assms by (simp add: resolveReplica_def decode_meta_def unmarshal_map_def unmarshal_string_def)

lemma fractional_replicas_zero:
  assumes perm: "\<forall>m. mset (range_order ext m) = mset m"
    and d: "json_decode ext raw = Some (meta_value x)"
    and x: "0 < x" "x < 1"
  shows "resolveReplicaCount ext name (Some (Some raw)) = 0"
proof -
  from x have "float64_to_int ext x = \<lfloor>x\<rfloor>" by (simp add: float64_to_int_def)
  also from x have "\<dots> = 0" by (simp add: floor_eq_iff)
  finally show ?thesis using x resolve_single_region [OF perm d, of name]
    by (simp add: resolveReplicaCount_def)
qed

text \<open>
  Claim C2. Replica resolution returns 3 for metadata that decodes to the object with
  the single region \<open>us-east4\<close> and \<open>numReplicas\<close> 3; 1 when the deployment or its
  metadata is absent; 1 when the only region reports \<open>numReplicas\<close> 0; for metadata that
  is a JSON string whose contents decode to an object, the same result as for that
  object given directly; and 1 when the metadata cannot be decoded, when it is a string
  whose contents cannot be decoded, and when it is any value other than an object or a
  string.
\<close>

theorem replica_resolution_examples:
  assumes perm: "\<forall>m. mset (range_order ext m) = mset m"
  shows "(json_decode ext raw = Some (meta_value 3) \<longrightarrow> resolveReplicaCount ext name (Some (Some raw)) = 3)
    \<and> resolveReplicaCount ext name None = 1
    \<and> resolveReplicaCount ext name (Some None) = 1
    \<and> (json_decode ext raw = Some (meta_value 0) \<longrightarrow> resolveReplicaCount ext name (Some (Some raw)) = 1)
    \<and> (\<forall>kvs quoted. json_decode ext raw = Some (JObject kvs) \<and> json_decode ext quoted = Some (JString raw) \<longrightarrow>
          resolveReplicaCount ext name (Some (Some quoted)) = resolveReplicaCount ext name (Some (Some raw)))
    \<and> (json_decode ext raw = None \<longrightarrow> resolveReplicaCount ext name (Some (Some raw)) = 1)
    \<and> (\<forall>s. json_decode ext raw = Some (JString s) \<and> json_decode ext s = None \<longrightarrow>
          resolveReplicaCount ext name (Some (Some raw)) = 1)
    \<and> (\<forall>v. json_decode ext raw = Some v \<and> (\<forall>kvs. v \<noteq> JObject kvs) \<and> (\<forall>s. v \<noteq> JString s) \<longrightarrow>
          resolveReplicaCount ext name (Some (Some raw)) = 1)"
proof -
  have 1: "json_decode ext raw = Some (meta_value 3) \<longrightarrow> resolveReplicaCount ext name (Some (Some raw)) = 3"
    using resolve_single_region [OF perm, of raw 3 name]
    by (simp add: resolveReplicaCount_def float64_to_int_def)
  have 2: "resolveReplicaCount ext name None = 1" "resolveReplicaCount ext name (Some None) = 1"
    by (simp_all add: resolveReplicaCount_def resolveReplica_def decode_meta_def)
  have 3: "json_decode ext raw = Some (meta_value 0) \<longrightarrow> resolveReplicaCount ext name (Some (Some raw)) = 1"
    using resolve_single_region [OF perm, of raw 0 name]
    by (simp add: resolveReplicaCount_def)
  have 4: "\<forall>kvs quoted. json_decode ext raw = Some (JObject kvs) \<and> json_decode ext quoted = Some (JString raw) \<longrightarrow>
          resolveReplicaCount ext name (Some (Some quoted)) = resolveReplicaCount ext name (Some (Some raw))"
    using resolve_double_encoded [of ext raw _ _ name] by (simp add: resolveReplicaCount_def)
  have 5: "json_decode ext raw = None \<longrightarrow> resolveReplicaCount ext name (Some (Some raw)) = 1"
    by (simp add: resolveReplicaCount_def resolveReplica_def decode_meta_def unmarshal_map_def unmarshal_string_def)
  have 6: "\<forall>s. json_decode ext raw = Some (JString s) \<and> json_decode ext s = None \<longrightarrow>
          resolveReplicaCount ext name (Some (Some raw)) = 1"
    by (simp add: resolveReplicaCount_def resolveReplica_def decode_meta_def unmarshal_map_def unmarshal_string_def)
  have 7: "\<forall>v. json_decode ext raw = Some v \<and> (\<forall>kvs. v \<noteq> JObject kvs) \<and> (\<forall>s. v \<noteq> JString s) \<longrightarrow>
          resolveReplicaCount ext name (Some (Some raw)) = 1"
  proof (intro allI impI)
    fix v
    assume h: "json_decode ext raw = Some v \<and> (\<forall>kvs. v \<noteq> JObject kvs) \<and> (\<forall>s. v \<noteq> JString s)"
    then show "resolveReplicaCount ext name (Some (Some raw)) = 1"
      by (cases v)
        (simp_all add: resolveReplicaCount_def resolveReplica_def decode_meta_def unmarshal_map_def
          unmarshal_string_def navigate_def)
  qed
  from 1 2 3 4 5 6 7 show ?thesis by (intro conjI)
qed

theorem replica_resolution_examples_witness:
  "resolveReplicaCount (example_externals id healthy_transport) ''api'' (Some (Some (meta_text ''3''))) = 3
   \<and> resolveReplicaCount (example_externals id healthy_transport) ''api'' (Some (Some (meta_text ''0''))) = 1
   \<and> resolveReplicaCount (example_externals id healthy_transport) ''api''
         (Some (Some (json_quote (meta_text ''3'')))) = 3
   \<and> resolveReplicaCount (example_externals id healthy_transport) ''api'' (Some (Some ''not-json'')) = 1"
proof -
  let ?E = "example_externals id healthy_transport"
  have perm: "\<forall>m. mset (range_order ?E m) = mset m"
    by (simp add: example_externals_def)
  have d3: "json_decode ?E (meta_text ''3'') = Some (meta_value 3)"
    by code_simp
  have d0: "json_decode ?E (meta_text ''0'') = Some (meta_value 0)"
    by code_simp
  have dq: "json_decode ?E (json_quote (meta_text ''3'')) = Some (JString (meta_text ''3''))"
    by code_simp
  have dn: "json_decode ?E ''not-json'' = None"
    by code_simp
  from d3 obtain kvs where o3: "json_decode ?E (meta_text ''3'') = Some (JObject kvs)"
    by (simp add: meta_value_def)
  note t = replica_resolution_examples [OF perm]
  from t [where raw = "meta_text ''3''" and name = "''api''"] d3 o3 dq
  have "resolveReplicaCount ?E ''api'' (Some (Some (meta_text ''3''))) = 3
    \<and> resolveReplicaCount ?E ''api'' (Some (Some (json_quote (meta_text ''3'')))) = 3"
    by metis
  moreover from t [where raw = "meta_text ''0''" and name = "''api''"] d0
  have "resolveReplicaCount ?E ''api'' (Some (Some (meta_text ''0''))) = 1"
    by blast
  moreover from t [where raw = "''not-json''" and name = "''api''"] dn
  have "resolveReplicaCount ?E ''api'' (Some (Some ''not-json'')) = 1"
    by blast
  ultimately show ?thesis by blast
qed

text \<open>
  The claim C4 as stated fails: on metadata with the regions \<open>us-east4\<close> reporting 2
  and \<open>europe-west4\<close> reporting 3, a run that visits the entries in the decoded order
  selects \<open>us-east4\<close> and returns 2, and a run that visits them in the reverse order
  selects \<open>europe-west4\<close> and returns 3.
\<close>

theorem replica_resolution_depends_on_iteration_order:
  "resolveReplica (example_externals id healthy_transport) ''api''
       (Some (Some (two_region_text ''2'' ''3''))) = (Some ''us-east4'', 2)
   \<and> resolveReplica (example_externals rev healthy_transport) ''api''
       (Some (Some (two_region_text ''2'' ''3''))) = (Some ''europe-west4'', 3)"
  by code_simp

theorem replica_count_fixed_when_regions_agree_witness:
  "positive_regions (example_externals id healthy_transport) (Some (Some (two_region_text ''2'' ''2'')))
     = [(''us-east4'', 2), (''europe-west4'', 2)]
   \<and> resolveReplicaCount ((example_externals id healthy_transport)\<lparr>range_order := id\<rparr>) ''api''
         (Some (Some (two_region_text ''2'' ''2'')))
     = resolveReplicaCount ((example_externals id healthy_transport)\<lparr>range_order := rev\<rparr>) ''api''
         (Some (Some (two_region_text ''2'' ''2'')))"
proof -
  let ?E = "example_externals id healthy_transport"
  let ?ld = "Some (Some (two_region_text ''2'' ''2''))"
  have p: "positive_regions ?E ?ld = [(''us-east4'', 2), (''europe-west4'', 2)]"
    by code_simp
  have o1: "\<forall>m :: (string \<times> json) list. mset (id m) = mset m" by simp
  have o2: "\<forall>m :: (string \<times> json) list. mset (rev m) = mset m" by simp
  from replica_count_fixed_when_regions_agree [OF o1 o2, of ?E ?ld "''api''"] p
  show ?thesis by (simp add: id_def)
qed

text \<open>
  Claim C9. The replica count is meant to be positive, but the test \<open>numReplicas > 0\<close>
  comes before the conversion \<open>int(numReplicas)\<close>, which discards the fraction: the
  metadata of the examples with \<open>numReplicas\<close> 0.5 resolves to the replica count 0.
\<close>

theorem fractional_replicas_resolve_to_zero:
  "json_decode (example_externals id healthy_transport) (meta_text ''0.5'') = Some (meta_value (1 / 2))
   \<and> resolveReplicaCount (example_externals id healthy_transport) ''api''
        (Some (Some (meta_text ''0.5''))) = 0"
  by code_simp

section \<open>Properties of the updater\<close>

lemma all_ok_append:
  "all_ok ext c hist (xs @ ys) \<longleftrightarrow> all_ok ext c hist xs \<and> all_ok ext c (hist @ xs) ys"
  by (induction xs arbitrary: hist) auto

text \<open>The three outcomes of \<open>UpdateServiceImage\<close>.\<close>

lemma UpdateServiceImage_outcome:
  fixes ext c hist sid env img n
  defines "u \<equiv> update_request c sid env img n" and "d \<equiv> deploy_request sid env"
  shows "(\<exists>err. \<not> request_ok ext c hist u
            \<and> doRequest ext c hist u = (Inl err, hist @ [u])
            \<and> UpdateServiceImage ext c hist sid env img n
                 = (Some (''failed to update service instance: '' @ err), hist @ [u]))
       \<or> (\<exists>err. request_ok ext c hist u \<and> \<not> request_ok ext c (hist @ [u]) d
            \<and> doRequest ext c (hist @ [u]) d = (Inl err, hist @ [u, d])
            \<and> UpdateServiceImage ext c hist sid env img n
                 = (Some (''failed to deploy service instance: '' @ err), hist @ [u, d]))
       \<or> (request_ok ext c hist u \<and> request_ok ext c (hist @ [u]) d
            \<and> UpdateServiceImage ext c hist sid env img n = (None, hist @ [u, d]))"
proof (cases rule: doRequest_cases [of ext c hist u])
  case (1 err)
  then show ?thesis
    by (simp add: UpdateServiceImage_def request_ok_def u_def)
next
  case (2 data)
  show ?thesis
  proof (cases rule: doRequest_cases [of ext c "hist @ [u]" d])
    case (1 err)
    with 2 show ?thesis
      by (simp add: UpdateServiceImage_def request_ok_def u_def d_def)
  next
    case (2 data')
    with \<open>doRequest ext c hist u = (Inr data, hist @ [u])\<close> show ?thesis
      by (simp add: UpdateServiceImage_def request_ok_def u_def d_def)
  qed
qed


lemma matched_services_Cons:
  "matched_services ps (s # svcs)
     = (if matchPrefix (Image s) ps = None then matched_services ps svcs
        else s # matched_services ps svcs)"
  by (simp add: matched_services_def matchPrefix_None_iff)

lemma update_loop_success:
  assumes "update_loop ext c env ps v svcs upd hist = ((res, None), hist')"
  shows "res = Some (upd @ map Name (matched_services ps svcs))
     \<and> hist' = hist @ concat (map (service_requests c env ps v) svcs)
     \<and> all_ok ext c hist (concat (map (service_requests c env ps v) svcs))"
  using assms
proof (induction svcs arbitrary: upd hist)
  case Nil
  then show ?case by (simp add: matched_services_def)
next
  case (Cons s svcs)
  show ?case
  proof (cases "matchPrefix (Image s) ps")
    case None
    with Cons.prems have "update_loop ext c env ps v svcs upd hist = ((res, None), hist')"
      by simp
    from Cons.IH [OF this] None show ?thesis
      by (simp add: matched_services_Cons service_requests_def)
  next
    case (Some p)
    let ?img = "rewriteImage (Image s) p v"
    let ?u = "update_request c (ID s) env ?img (NumReplicas s)"
    let ?d = "deploy_request (ID s) env"
    have sr: "service_requests c env ps v s = [?u, ?d]"
      using Some by (simp add: service_requests_def)
    from UpdateServiceImage_outcome [of ext c hist "ID s" env ?img "NumReplicas s"] Cons.prems Some
    have ok: "request_ok ext c hist ?u" "request_ok ext c (hist @ [?u]) ?d"
      and us: "UpdateServiceImage ext c hist (ID s) env ?img (NumReplicas s) = (None, hist @ [?u, ?d])"
      by auto
    from Cons.prems Some us
    have "update_loop ext c env ps v svcs (upd @ [Name s]) (hist @ [?u, ?d]) = ((res, None), hist')"
      by simp
    from Cons.IH [OF this] Some ok show ?thesis
      by (simp add: matched_services_Cons sr)
  qed
qed

lemma update_loop_failure:
  assumes "update_loop ext c env ps v svcs upd hist = ((res, Some e), hist')"
  shows "\<exists>pre s post p cause.
       svcs = pre @ s # post
     \<and> matchPrefix (Image s) ps = Some p
     \<and> res = Some (upd @ map Name (matched_services ps pre))
     \<and> all_ok ext c hist (concat (map (service_requests c env ps v) pre))
     \<and> UpdateServiceImage ext c (hist @ concat (map (service_requests c env ps v) pre)) (ID s) env
          (rewriteImage (Image s) p v) (NumReplicas s) = (Some cause, hist')
     \<and> e = ''failed to update service '' @ Name s @ '': '' @ cause"
  using assms
proof (induction svcs arbitrary: upd hist)
  case Nil
  then show ?case by simp
next
  case (Cons s svcs)
  show ?case
  proof (cases "matchPrefix (Image s) ps")
    case None
    with Cons.prems have "update_loop ext c env ps v svcs upd hist = ((res, Some e), hist')"
      by simp
    from Cons.IH [OF this] obtain pre s' post p cause where h:
      "svcs = pre @ s' # post" "matchPrefix (Image s') ps = Some p"
      "res = Some (upd @ map Name (matched_services ps pre))"
      "all_ok ext c hist (concat (map (service_requests c env ps v) pre))"
      "UpdateServiceImage ext c (hist @ concat (map (service_requests c env ps v) pre)) (ID s') env
          (rewriteImage (Image s') p v) (NumReplicas s') = (Some cause, hist')"
      "e = ''failed to update service '' @ Name s' @ '': '' @ cause"
      by blast
    have "s # svcs = (s # pre) @ s' # post
      \<and> matchPrefix (Image s') ps = Some p
      \<and> res = Some (upd @ map Name (matched_services ps (s # pre)))
      \<and> all_ok ext c hist (concat (map (service_requests c env ps v) (s # pre)))
      \<and> UpdateServiceImage ext c (hist @ concat (map (service_requests c env ps v) (s # pre))) (ID s') env
          (rewriteImage (Image s') p v) (NumReplicas s') = (Some cause, hist')
      \<and> e = ''failed to update service '' @ Name s' @ '': '' @ cause"
      using h None by (simp add: matched_services_Cons service_requests_def)
    then show ?thesis by blast
  next
    case (Some p)
    let ?img = "rewriteImage (Image s) p v"
    let ?u = "update_request c (ID s) env ?img (NumReplicas s)"
    let ?d = "deploy_request (ID s) env"
    have sr: "service_requests c env ps v s = [?u, ?d]"
      using Some by (simp add: service_requests_def)
    obtain r h1 where us: "UpdateServiceImage ext c hist (ID s) env ?img (NumReplicas s) = (r, h1)"
      by (cases "UpdateServiceImage ext c hist (ID s) env ?img (NumReplicas s)")
    show ?thesis
    proof (cases r)
      case (Some cause)
      with Cons.prems \<open>matchPrefix (Image s) ps = Some p\<close> us
      have "res = Some upd" "e = ''failed to update service '' @ Name s @ '': '' @ cause" "hist' = h1"
        by simp_all
      with us Some \<open>matchPrefix (Image s) ps = Some p\<close>
      have "s # svcs = [] @ s # svcs
        \<and> matchPrefix (Image s) ps = Some p
        \<and> res = Some (upd @ map Name (matched_services ps []))
        \<and> all_ok ext c hist (concat (map (service_requests c env ps v) []))
        \<and> UpdateServiceImage ext c (hist @ concat (map (service_requests c env ps v) [])) (ID s) env
            (rewriteImage (Image s) p v) (NumReplicas s) = (Some cause, hist')
        \<and> e = ''failed to update service '' @ Name s @ '': '' @ cause"
        by (simp add: matched_services_def)
      then show ?thesis by blast
    next
      case None
      from UpdateServiceImage_outcome [of ext c hist "ID s" env ?img "NumReplicas s"] us None
      have ok: "request_ok ext c hist ?u" "request_ok ext c (hist @ [?u]) ?d"
        and h1: "h1 = hist @ [?u, ?d]"
        by auto
      from Cons.prems \<open>matchPrefix (Image s) ps = Some p\<close> us None h1
      have "update_loop ext c env ps v svcs (upd @ [Name s]) (hist @ [?u, ?d]) = ((res, Some e), hist')"
        by simp
      from Cons.IH [OF this] obtain pre s' post p' cause where h:
        "svcs = pre @ s' # post" "matchPrefix (Image s') ps = Some p'"
        "res = Some ((upd @ [Name s]) @ map Name (matched_services ps pre))"
        "all_ok ext c (hist @ [?u, ?d]) (concat (map (service_requests c env ps v) pre))"
        "UpdateServiceImage ext c ((hist @ [?u, ?d]) @ concat (map (service_requests c env ps v) pre)) (ID s') env
            (rewriteImage (Image s') p' v) (NumReplicas s') = (Some cause, hist')"
        "e = ''failed to update service '' @ Name s' @ '': '' @ cause"
        by blast
      have "s # svcs = (s # pre) @ s' # post
        \<and> matchPrefix (Image s') ps = Some p'
        \<and> res = Some (upd @ map Name (matched_services ps (s # pre)))
        \<and> all_ok ext c hist (concat (map (service_requests c env ps v) (s # pre)))
        \<and> UpdateServiceImage ext c (hist @ concat (map (service_requests c env ps v) (s # pre))) (ID s') env
            (rewriteImage (Image s') p' v) (NumReplicas s') = (Some cause, hist')
        \<and> e = ''failed to update service '' @ Name s' @ '': '' @ cause"
        using h ok \<open>matchPrefix (Image s) ps = Some p\<close>
        by (simp add: matched_services_Cons sr)
      then show ?thesis by blast
    qed
  qed
qed

text \<open>
  Claim C3. \<open>UpdateServices\<close> goes through the services in the order \<open>GetServices\<close>
  returned them and makes, for each matched service, the update request and then the
  deployment request, one after the other. When it returns no error, every request
  succeeded and the returned list names all matched services. When it returns an error,
  there is a first failing service: every request for the services before it
  succeeded, the returned list names exactly the matched services before it, the error
  names the failing service and carries the cause, the last request made is the failed
  update or the failed deployment of that service, and no request is made for any later
  service nor to undo an earlier update.
\<close>

theorem updater_stops_at_first_failure:
  assumes g: "GetServices ext c hist env = (Inr svcs, hist0)"
    and r: "UpdateServices ext c hist env ps v = ((res, err), hist')"
  shows "(err = None \<longrightarrow>
            res = Some (map Name (matched_services ps svcs))
          \<and> hist' = hist0 @ concat (map (service_requests c env ps v) svcs)
          \<and> all_ok ext c hist0 (concat (map (service_requests c env ps v) svcs)))
    \<and> (\<forall>e. err = Some e \<longrightarrow>
          (\<exists>pre s post p cause.
              svcs = pre @ s # post
            \<and> matchPrefix (Image s) ps = Some p
            \<and> res = Some (map Name (matched_services ps pre))
            \<and> all_ok ext c hist0 (concat (map (service_requests c env ps v) pre))
            \<and> e = ''failed to update service '' @ Name s @ '': '' @ cause
            \<and> (let h = hist0 @ concat (map (service_requests c env ps v) pre);
                    u = update_request c (ID s) env (rewriteImage (Image s) p v) (NumReplicas s);
                    d = deploy_request (ID s) env
                in (\<not> request_ok ext c h u \<and> hist' = h @ [u]
                      \<and> prefix ''failed to update service instance: '' cause)
                 \<or> (request_ok ext c h u \<and> \<not> request_ok ext c (h @ [u]) d \<and> hist' = h @ [u, d]
                      \<and> prefix ''failed to deploy service instance: '' cause))))"
proof -
  from g r have loop: "update_loop ext c env ps v svcs [] hist0 = ((res, err), hist')"
    by (simp add: UpdateServices_def)
  have ok: "err = None \<longrightarrow>
            res = Some (map Name (matched_services ps svcs))
          \<and> hist' = hist0 @ concat (map (service_requests c env ps v) svcs)
          \<and> all_ok ext c hist0 (concat (map (service_requests c env ps v) svcs))"
  proof
    assume "err = None"
    with loop have "update_loop ext c env ps v svcs [] hist0 = ((res, None), hist')" by simp
    from update_loop_success [OF this]
    show "res = Some (map Name (matched_services ps svcs))
          \<and> hist' = hist0 @ concat (map (service_requests c env ps v) svcs)
          \<and> all_ok ext c hist0 (concat (map (service_requests c env ps v) svcs))"
      by simp
  qed
  have bad: "\<exists>pre s post p cause.
              svcs = pre @ s # post
            \<and> matchPrefix (Image s) ps = Some p
            \<and> res = Some (map Name (matched_services ps pre))
            \<and> all_ok ext c hist0 (concat (map (service_requests c env ps v) pre))
            \<and> e = ''failed to update service '' @ Name s @ '': '' @ cause
            \<and> (let h = hist0 @ concat (map (service_requests c env ps v) pre);
                    u = update_request c (ID s) env (rewriteImage (Image s) p v) (NumReplicas s);
                    d = deploy_request (ID s) env
                in (\<not> request_ok ext c h u \<and> hist' = h @ [u]
                      \<and> prefix ''failed to update service instance: '' cause)
                 \<or> (request_ok ext c h u \<and> \<not> request_ok ext c (h @ [u]) d \<and> hist' = h @ [u, d]
                      \<and> prefix ''failed to deploy service instance: '' cause))"
    if "err = Some e" for e
  proof -
    from that loop have "update_loop ext c env ps v svcs [] hist0 = ((res, Some e), hist')" by simp
    from update_loop_failure [OF this] obtain pre s post p cause where h:
      "svcs = pre @ s # post" "matchPrefix (Image s) ps = Some p"
      "res = Some (map Name (matched_services ps pre))"
      "all_ok ext c hist0 (concat (map (service_requests c env ps v) pre))"
      "UpdateServiceImage ext c (hist0 @ concat (map (service_requests c env ps v) pre)) (ID s) env
          (rewriteImage (Image s) p v) (NumReplicas s) = (Some cause, hist')"
      "e = ''failed to update service '' @ Name s @ '': '' @ cause"
      by auto
    let ?h = "hist0 @ concat (map (service_requests c env ps v) pre)"
    let ?u = "update_request c (ID s) env (rewriteImage (Image s) p v) (NumReplicas s)"
    let ?d = "deploy_request (ID s) env"
    let ?U = "UpdateServiceImage ext c ?h (ID s) env (rewriteImage (Image s) p v) (NumReplicas s)"
    from UpdateServiceImage_outcome [of ext c ?h "ID s" env "rewriteImage (Image s) p v" "NumReplicas s"]
    consider
      (update) x where "\<not> request_ok ext c ?h ?u"
        "?U = (Some (''failed to update service instance: '' @ x), ?h @ [?u])"
    | (deploy) x where "request_ok ext c ?h ?u" "\<not> request_ok ext c (?h @ [?u]) ?d"
        "?U = (Some (''failed to deploy service instance: '' @ x), ?h @ [?u, ?d])"
    | (finished) "?U = (None, ?h @ [?u, ?d])"
      by blast
    then have "(\<not> request_ok ext c ?h ?u \<and> hist' = ?h @ [?u]
              \<and> prefix ''failed to update service instance: '' cause)
        \<or> (request_ok ext c ?h ?u \<and> \<not> request_ok ext c (?h @ [?u]) ?d \<and> hist' = ?h @ [?u, ?d]
              \<and> prefix ''failed to deploy service instance: '' cause)"
    proof cases
      case update
      from update(2) h(5) have "cause = ''failed to update service instance: '' @ x" "hist' = ?h @ [?u]"
        by simp_all
      with update(1) show ?thesis by simp
    next
      case deploy
      from deploy(3) h(5) have "cause = ''failed to deploy service instance: '' @ x" "hist' = ?h @ [?u, ?d]"
        by simp_all
      with deploy(1,2) show ?thesis by simp
    next
      case finished
      with h(5) show ?thesis by simp
    qed
    with h(1,2,3,4,6) show ?thesis unfolding Let_def by blast
  qed
  from ok bad show ?thesis by blast
qed

theorem updater_stops_at_first_failure_witness:
  "UpdateServices (example_externals id (failing_transport ''svc-b'')) example_client [] ''env-1''
       [''myapp''] ''v2''
     = ((Some [''api''],
         Some ''failed to update service worker: failed to update service instance: API returned status 500: Internal Server Error''),
        [EnvironmentQuery ''env-1'',
         ServiceInstanceUpdate ''env-1'' ''svc-a'' ''myapp:v2'' 3 None,
         ServiceInstanceDeploy ''svc-a'' ''env-1'' False,
         ServiceInstanceUpdate ''env-1'' ''svc-b'' ''myapp:v2'' 2 None])
   \<and> (\<exists>pre s post p cause.
          example_services = pre @ s # post
        \<and> matchPrefix (Image s) [''myapp''] = Some p
        \<and> Some [''api''] = Some (map Name (matched_services [''myapp''] pre))
        \<and> all_ok (example_externals id (failing_transport ''svc-b'')) example_client
              [EnvironmentQuery ''env-1'']
              (concat (map (service_requests example_client ''env-1'' [''myapp''] ''v2'') pre))
        \<and> ''failed to update service worker: failed to update service instance: API returned status 500: Internal Server Error''
            = ''failed to update service '' @ Name s @ '': '' @ cause)"
proof -
  let ?E = "example_externals id (failing_transport ''svc-b'')"
  have g: "GetServices ?E example_client [] ''env-1'' = (Inr example_services, [EnvironmentQuery ''env-1''])"
    by code_simp
  have r: "UpdateServices ?E example_client [] ''env-1'' [''myapp''] ''v2''
     = ((Some [''api''],
         Some ''failed to update service worker: failed to update service instance: API returned status 500: Internal Server Error''),
        [EnvironmentQuery ''env-1'',
         ServiceInstanceUpdate ''env-1'' ''svc-a'' ''myapp:v2'' 3 None,
         ServiceInstanceDeploy ''svc-a'' ''env-1'' False,
         ServiceInstanceUpdate ''env-1'' ''svc-b'' ''myapp:v2'' 2 None])"
    by code_simp
  note t = updater_stops_at_first_failure [OF g r, THEN conjunct2, rule_format, OF refl]
  from t obtain pre s post p cause where
    "example_services = pre @ s # post"
    "matchPrefix (Image s) [''myapp''] = Some p"
    "Some [''api''] = Some (map Name (matched_services [''myapp''] pre))"
    "all_ok ?E example_client [EnvironmentQuery ''env-1'']
       (concat (map (service_requests example_client ''env-1'' [''myapp''] ''v2'') pre))"
    "''failed to update service worker: failed to update service instance: API returned status 500: Internal Server Error''
       = ''failed to update service '' @ Name s @ '': '' @ cause"
    by (elim exE conjE) (rule that, assumption+)
  then have "\<exists>pre s post p cause.
          example_services = pre @ s # post
        \<and> matchPrefix (Image s) [''myapp''] = Some p
        \<and> Some [''api''] = Some (map Name (matched_services [''myapp''] pre))
        \<and> all_ok ?E example_client [EnvironmentQuery ''env-1'']
              (concat (map (service_requests example_client ''env-1'' [''myapp''] ''v2'') pre))
        \<and> ''failed to update service worker: failed to update service instance: API returned status 500: Internal Server Error''
            = ''failed to update service '' @ Name s @ '': '' @ cause"
    by (intro exI conjI)
  with r show ?thesis by (rule conjI)
qed

section \<open>Properties of the handler\<close>

lemma GetServices_hist:
  "snd (GetServices ext c hist env) = hist @ [EnvironmentQuery env]"
  by (cases rule: doRequest_cases [of ext c hist "EnvironmentQuery env"])
    (simp_all add: GetServices_def split: sum.splits)

lemma UpdateServices_hist:
  "\<exists>more. snd (UpdateServices ext c hist env ps v) = hist @ EnvironmentQuery env # more"
proof (cases "GetServices ext c hist env")
  case (Pair g h)
  with GetServices_hist [of ext c hist env] have h: "h = hist @ [EnvironmentQuery env]" by simp
  show ?thesis
  proof (cases g)
    case (Inl err)
    with Pair h show ?thesis by (simp add: UpdateServices_def)
  next
    case (Inr svcs)
    obtain more where "snd (update_loop ext c env ps v svcs [] h) = h @ more"
      using update_loop_hist by blast
    with Pair Inr h show ?thesis by (simp add: UpdateServices_def)
  qed
qed

lemma update_loop_no_match:
  assumes "\<forall>s \<in> set svcs. \<not> matchesPrefix (Image s) ps"
  shows "update_loop ext c env ps v svcs upd hist = ((Some upd, None), hist)"
  using assms by (induction svcs) (simp_all add: matchPrefix_None_iff [symmetric])

lemma update_loop_all_ok:
  assumes "all_ok ext c hist (concat (map (service_requests c env ps v) svcs))"
  shows "update_loop ext c env ps v svcs upd hist
    = ((Some (upd @ map Name (matched_services ps svcs)), None),
       hist @ concat (map (service_requests c env ps v) svcs))"
  using assms
proof (induction svcs arbitrary: upd hist)
  case Nil
  then show ?case by (simp add: matched_services_def)
next
  case (Cons s svcs)
  show ?case
  proof (cases "matchPrefix (Image s) ps")
    case None
    then have sr: "service_requests c env ps v s = []"
      by (simp add: service_requests_def)
    with Cons.prems have "all_ok ext c hist (concat (map (service_requests c env ps v) svcs))"
      by simp
    from Cons.IH [OF this] None sr show ?thesis
      by (simp add: matched_services_Cons)
  next
    case (Some p)
    let ?img = "rewriteImage (Image s) p v"
    let ?u = "update_request c (ID s) env ?img (NumReplicas s)"
    let ?d = "deploy_request (ID s) env"
    have sr: "service_requests c env ps v s = [?u, ?d]"
      using Some by (simp add: service_requests_def)
    from Cons.prems sr have ok: "request_ok ext c hist ?u" "request_ok ext c (hist @ [?u]) ?d"
      and rest: "all_ok ext c (hist @ [?u, ?d]) (concat (map (service_requests c env ps v) svcs))"
      by (simp_all add: all_ok_append)
    from UpdateServiceImage_outcome [of ext c hist "ID s" env ?img "NumReplicas s"] ok
    have us: "UpdateServiceImage ext c hist (ID s) env ?img (NumReplicas s) = (None, hist @ [?u, ?d])"
      by blast
    from Cons.IH [OF rest] Some us show ?thesis
      by (simp add: matched_services_Cons sr)
  qed
qed

lemma empty_string_is_prefix: "[] \<in> set ps \<Longrightarrow> matchesPrefix img ps"
  by (simp add: matchesPrefix_iff) (rule bexI [of _ "[]"], simp_all)

lemma matched_services_all: "[] \<in> set ps \<Longrightarrow> matched_services ps svcs = svcs"
  by (simp add: matched_services_def empty_string_is_prefix)

lemma Name_services_of_edges:
  "map Name (services_of_edges ext edges) = map ServiceName (filter (\<lambda>n. SourceImage n \<noteq> []) edges)"
  by (induction edges) simp_all

lemma Image_services_of_edges:
  "s \<in> set (services_of_edges ext edges) \<Longrightarrow> Image s \<noteq> []"
  by (induction edges) (auto split: if_splits)

text \<open>Past validation the handler answers with what \<open>UpdateServices\<close> returns.\<close>

lemma handleUpdate_validated:
  assumes "Method r = ''PUT''"
    and "decode_request ext (request_body r) = Inr req"
    and "uuid_Parse_ok ext (ProjectID req)" and "uuid_Parse_ok ext (EnvironmentID req)"
    and "ImagePrefixes req \<noteq> []" and "NewVersion req \<noteq> []"
  shows "handleUpdate ext client hist r =
     (case UpdateServices ext client hist (EnvironmentID req) (ImagePrefixes req) (NewVersion req) of
        ((updatedServices, Some err), hist') \<Rightarrow>
          (respond 500 (ErrorResponse (''Failed to update services: '' @ err)), hist')
      | ((updatedServices, None), hist') \<Rightarrow>
          if length (case updatedServices of None \<Rightarrow> [] | Some names \<Rightarrow> names) = 0
          then (respond 200
                  (SuccessResponse ''No services matched the provided image prefixes'' (Some [])), hist')
          else (respond 200
                  (SuccessResponse
                     (''Successfully updated ''
                        @ string_of_nat (length (case updatedServices of None \<Rightarrow> [] | Some names \<Rightarrow> names))
                        @ '' service(s)'')
                     updatedServices), hist'))"
proof -
  obtain upd err h where u:
    "UpdateServices ext client hist (EnvironmentID req) (ImagePrefixes req) (NewVersion req) = ((upd, err), h)"
    by (metis prod.collapse)
  show ?thesis
    by (cases err) (simp_all add: handleUpdate_def assms u)
qed

lemma handleUpdate_validated_status:
  assumes "Method r = ''PUT''"
    and "decode_request ext (request_body r) = Inr req"
    and "uuid_Parse_ok ext (ProjectID req)" and "uuid_Parse_ok ext (EnvironmentID req)"
    and "ImagePrefixes req \<noteq> []" and "NewVersion req \<noteq> []"
  shows "status (fst (handleUpdate ext client hist r)) \<in> {200, 500}"
    and "snd (handleUpdate ext client hist r)
      = snd (UpdateServices ext client hist (EnvironmentID req) (ImagePrefixes req) (NewVersion req))"
proof -
  obtain upd err h where u:
    "UpdateServices ext client hist (EnvironmentID req) (ImagePrefixes req) (NewVersion req) = ((upd, err), h)"
    by (metis prod.collapse)
  show "status (fst (handleUpdate ext client hist r)) \<in> {200, 500}"
    by (cases err) (simp_all add: handleUpdate_validated [OF assms] u respond_def)
  show "snd (handleUpdate ext client hist r)
      = snd (UpdateServices ext client hist (EnvironmentID req) (ImagePrefixes req) (NewVersion req))"
    by (cases err) (simp_all add: handleUpdate_validated [OF assms] u)
qed

text \<open>
  Claim C7. For a PUT request that passes validation, when the listing of the services
  succeeds and no listed service matches any of the prefixes, the handler answers with
  status 200, the message that no services matched and \<open>updated_services\<close> the empty
  list (a list, not \<open>null\<close>), having made the listing request and no other.
\<close>

theorem zero_matches_reported_as_success:
  assumes "Method r = ''PUT''"
    and "decode_request ext (request_body r) = Inr req"
    and "uuid_Parse_ok ext (ProjectID req)" and "uuid_Parse_ok ext (EnvironmentID req)"
    and "ImagePrefixes req \<noteq> []" and "NewVersion req \<noteq> []"
    and g: "GetServices ext client hist (EnvironmentID req) = (Inr svcs, hist0)"
    and none: "\<forall>s \<in> set svcs. \<not> matchesPrefix (Image s) (ImagePrefixes req)"
  shows "status (fst (handleUpdate ext client hist r)) = 200
    \<and> body (fst (handleUpdate ext client hist r))
        = SuccessResponse ''No services matched the provided image prefixes'' (Some [])
    \<and> content_type (fst (handleUpdate ext client hist r)) = ''application/json''
    \<and> snd (handleUpdate ext client hist r) = hist @ [EnvironmentQuery (EnvironmentID req)]"
proof -
  from g GetServices_hist [of ext client hist "EnvironmentID req"]
  have h0: "hist0 = hist @ [EnvironmentQuery (EnvironmentID req)]" by simp
  from g update_loop_no_match [OF none]
  have "UpdateServices ext client hist (EnvironmentID req) (ImagePrefixes req) (NewVersion req)
      = ((Some [], None), hist0)"
    by (simp add: UpdateServices_def)
  with h0 show ?thesis
    by (simp add: handleUpdate_validated [OF assms(1-6)] respond_def)
qed

theorem zero_matches_reported_as_success_witness:
  "status (fst (handleUpdate (example_externals id healthy_transport) example_client []
      \<lparr>Method = ''PUT'',
       request_body = update_body ''550e8400-e29b-41d4-a716-446655440000''
         ''550e8400-e29b-41d4-a716-446655440001'' ''[\"otherapp\"]'' ''v2''\<rparr>)) = 200
   \<and> body (fst (handleUpdate (example_externals id healthy_transport) example_client []
      \<lparr>Method = ''PUT'',
       request_body = update_body ''550e8400-e29b-41d4-a716-446655440000''
         ''550e8400-e29b-41d4-a716-446655440001'' ''[\"otherapp\"]'' ''v2''\<rparr>))
     = SuccessResponse ''No services matched the provided image prefixes'' (Some [])
   \<and> snd (handleUpdate (example_externals id healthy_transport) example_client []
      \<lparr>Method = ''PUT'',
       request_body = update_body ''550e8400-e29b-41d4-a716-446655440000''
         ''550e8400-e29b-41d4-a716-446655440001'' ''[\"otherapp\"]'' ''v2''\<rparr>)
     = [EnvironmentQuery ''550e8400-e29b-41d4-a716-446655440001'']"
proof -
  let ?E = "example_externals id healthy_transport"
  let ?r = "\<lparr>Method = ''PUT'',
       request_body = update_body ''550e8400-e29b-41d4-a716-446655440000''
         ''550e8400-e29b-41d4-a716-446655440001'' ''[\"otherapp\"]'' ''v2''\<rparr>"
  let ?req = "\<lparr>ProjectID = ''550e8400-e29b-41d4-a716-446655440000'',
       EnvironmentID = ''550e8400-e29b-41d4-a716-446655440001'',
       ImagePrefixes = [''otherapp''], NewVersion = ''v2''\<rparr>"
  have m: "Method ?r = ''PUT''" by simp
  have d: "decode_request ?E (request_body ?r) = Inr ?req" by code_simp
  have p: "uuid_Parse_ok ?E (ProjectID ?req)" by code_simp
  have e: "uuid_Parse_ok ?E (EnvironmentID ?req)" by code_simp
  have i: "ImagePrefixes ?req \<noteq> []" by simp
  have v: "NewVersion ?req \<noteq> []" by simp
  have g: "GetServices ?E example_client [] (EnvironmentID ?req)
      = (Inr example_services, [EnvironmentQuery ''550e8400-e29b-41d4-a716-446655440001''])"
    by code_simp
  have n: "\<forall>s \<in> set example_services. \<not> matchesPrefix (Image s) (ImagePrefixes ?req)"
    by (simp add: example_services_def HasPrefix_def)
  from zero_matches_reported_as_success [OF m d p e i v g n] show ?thesis by simp
qed

text \<open>
  Claim C8, as amended. For a PUT request: when the stream decoder reports an error for
  the body, the answer has status 400 and a non-empty error message, \<open>Invalid JSON: \<close>
  followed by the decoding error; when the body decodes, a \<open>project_id\<close> that is not a
  UUID is answered with 400 and a message naming \<open>project_id\<close>, a valid \<open>project_id\<close>
  with an \<open>environment_id\<close> that is not a UUID with 400 and a message naming
  \<open>environment_id\<close>, and an empty prefix list or an empty version with 400; none of
  these answers is preceded by a remote request. What follows the first JSON value of
  the body is not examined.
\<close>

theorem validation_failures_make_no_remote_call:
  assumes "Method r = ''PUT''"
  shows "(\<forall>err. decode_request ext (request_body r) = Inl err \<longrightarrow>
            status (fst (handleUpdate ext client hist r)) = 400
          \<and> body (fst (handleUpdate ext client hist r)) = ErrorResponse (''Invalid JSON: '' @ err)
          \<and> (\<exists>msg. body (fst (handleUpdate ext client hist r)) = ErrorResponse msg \<and> msg \<noteq> [])
          \<and> snd (handleUpdate ext client hist r) = hist)
    \<and> (\<forall>req. decode_request ext (request_body r) = Inr req \<longrightarrow>
          (\<not> uuid_Parse_ok ext (ProjectID req) \<longrightarrow>
             status (fst (handleUpdate ext client hist r)) = 400
           \<and> body (fst (handleUpdate ext client hist r))
               = ErrorResponse ''Invalid project_id: must be a valid UUID'')
        \<and> (uuid_Parse_ok ext (ProjectID req) \<and> \<not> uuid_Parse_ok ext (EnvironmentID req) \<longrightarrow>
             status (fst (handleUpdate ext client hist r)) = 400
           \<and> body (fst (handleUpdate ext client hist r))
               = ErrorResponse ''Invalid environment_id: must be a valid UUID'')
        \<and> (uuid_Parse_ok ext (ProjectID req) \<and> uuid_Parse_ok ext (EnvironmentID req)
               \<and> ImagePrefixes req = [] \<longrightarrow>
             status (fst (handleUpdate ext client hist r)) = 400
           \<and> body (fst (handleUpdate ext client hist r))
               = ErrorResponse ''image_prefixes cannot be empty'')
        \<and> (uuid_Parse_ok ext (ProjectID req) \<and> uuid_Parse_ok ext (EnvironmentID req)
               \<and> ImagePrefixes req \<noteq> [] \<and> NewVersion req = [] \<longrightarrow>
             status (fst (handleUpdate ext client hist r)) = 400
           \<and> body (fst (handleUpdate ext client hist r))
               = ErrorResponse ''new_version cannot be empty'')
        \<and> (\<not> uuid_Parse_ok ext (ProjectID req) \<or> \<not> uuid_Parse_ok ext (EnvironmentID req)
               \<or> ImagePrefixes req = [] \<or> NewVersion req = [] \<longrightarrow>
             status (fst (handleUpdate ext client hist r)) = 400
           \<and> (\<exists>msg. body (fst (handleUpdate ext client hist r)) = ErrorResponse msg \<and> msg \<noteq> [])
           \<and> snd (handleUpdate ext client hist r) = hist))"
proof -
  have json: "status (fst (handleUpdate ext client hist r)) = 400
          \<and> body (fst (handleUpdate ext client hist r)) = ErrorResponse (''Invalid JSON: '' @ err)
          \<and> (\<exists>msg. body (fst (handleUpdate ext client hist r)) = ErrorResponse msg \<and> msg \<noteq> [])
          \<and> snd (handleUpdate ext client hist r) = hist"
    if "decode_request ext (request_body r) = Inl err" for err
    using assms that by (simp add: handleUpdate_def respond_def)
  have fields: "(\<not> uuid_Parse_ok ext (ProjectID req) \<longrightarrow>
             status (fst (handleUpdate ext client hist r)) = 400
           \<and> body (fst (handleUpdate ext client hist r))
               = ErrorResponse ''Invalid project_id: must be a valid UUID'')
        \<and> (uuid_Parse_ok ext (ProjectID req) \<and> \<not> uuid_Parse_ok ext (EnvironmentID req) \<longrightarrow>
             status (fst (handleUpdate ext client hist r)) = 400
           \<and> body (fst (handleUpdate ext client hist r))
               = ErrorResponse ''Invalid environment_id: must be a valid UUID'')
        \<and> (uuid_Parse_ok ext (ProjectID req) \<and> uuid_Parse_ok ext (EnvironmentID req)
               \<and> ImagePrefixes req = [] \<longrightarrow>
             status (fst (handleUpdate ext client hist r)) = 400
           \<and> body (fst (handleUpdate ext client hist r))
               = ErrorResponse ''image_prefixes cannot be empty'')
        \<and> (uuid_Parse_ok ext (ProjectID req) \<and> uuid_Parse_ok ext (EnvironmentID req)
               \<and> ImagePrefixes req \<noteq> [] \<and> NewVersion req = [] \<longrightarrow>
             status (fst (handleUpdate ext client hist r)) = 400
           \<and> body (fst (handleUpdate ext client hist r))
               = ErrorResponse ''new_version cannot be empty'')
        \<and> (\<not> uuid_Parse_ok ext (ProjectID req) \<or> \<not> uuid_Parse_ok ext (EnvironmentID req)
               \<or> ImagePrefixes req = [] \<or> NewVersion req = [] \<longrightarrow>
             status (fst (handleUpdate ext client hist r)) = 400
           \<and> (\<exists>msg. body (fst (handleUpdate ext client hist r)) = ErrorResponse msg \<and> msg \<noteq> [])
           \<and> snd (handleUpdate ext client hist r) = hist)"
    if "decode_request ext (request_body r) = Inr req" for req
    using assms that by (simp add: handleUpdate_def respond_def)
  from json fields show ?thesis by blast
qed

theorem validation_failures_make_no_remote_call_witness:
  "status (fst (handleUpdate (example_externals id healthy_transport) example_client []
      \<lparr>Method = ''PUT'', request_body = ''invalid json''\<rparr>)) = 400
   \<and> body (fst (handleUpdate (example_externals id healthy_transport) example_client []
      \<lparr>Method = ''PUT'', request_body = ''invalid json''\<rparr>))
     = ErrorResponse (''Invalid JSON: invalid character '' @ [CHR 0x27, CHR ''i'', CHR 0x27]
         @ '' looking for beginning of value'')
   \<and> snd (handleUpdate (example_externals id healthy_transport) example_client []
      \<lparr>Method = ''PUT'', request_body = ''invalid json''\<rparr>) = []
   \<and> body (fst (handleUpdate (example_externals id healthy_transport) example_client []
      \<lparr>Method = ''PUT'',
       request_body = update_body ''invalid-uuid'' ''550e8400-e29b-41d4-a716-446655440000''
         ''[\"myapp\"]'' ''v1.0.0''\<rparr>))
     = ErrorResponse ''Invalid project_id: must be a valid UUID''
   \<and> body (fst (handleUpdate (example_externals id healthy_transport) example_client []
      \<lparr>Method = ''PUT'',
       request_body = update_body ''550e8400-e29b-41d4-a716-446655440000'' ''invalid-uuid''
         ''[\"myapp\"]'' ''v1.0.0''\<rparr>))
     = ErrorResponse ''Invalid environment_id: must be a valid UUID''
   \<and> body (fst (handleUpdate (example_externals id healthy_transport) example_client []
      \<lparr>Method = ''PUT'',
       request_body = update_body ''550e8400-e29b-41d4-a716-446655440000''
         ''550e8400-e29b-41d4-a716-446655440001'' ''[]'' ''v1.0.0''\<rparr>))
     = ErrorResponse ''image_prefixes cannot be empty''
   \<and> status (fst (handleUpdate (example_externals id healthy_transport) example_client []
      \<lparr>Method = ''PUT'',
       request_body = update_body ''550e8400-e29b-41d4-a716-446655440000''
         ''550e8400-e29b-41d4-a716-446655440001'' ''[\"myapp\"]'' []\<rparr>)) = 400
   \<and> body (fst (handleUpdate (example_externals id healthy_transport) example_client []
      \<lparr>Method = ''PUT'',
       request_body = update_body ''550e8400-e29b-41d4-a716-446655440000''
         ''550e8400-e29b-41d4-a716-446655440001'' ''[\"myapp\"]'' []\<rparr>))
     = ErrorResponse ''new_version cannot be empty''
   \<and> snd (handleUpdate (example_externals id healthy_transport) example_client []
      \<lparr>Method = ''PUT'',
       request_body = update_body ''550e8400-e29b-41d4-a716-446655440000''
         ''550e8400-e29b-41d4-a716-446655440001'' ''[\"myapp\"]'' []\<rparr>) = []"
proof -
  let ?E = "example_externals id healthy_transport"
  let ?ok0 = "''550e8400-e29b-41d4-a716-446655440000''"
  let ?ok1 = "''550e8400-e29b-41d4-a716-446655440001''"
  let ?r1 = "\<lparr>Method = ''PUT'', request_body = ''invalid json''\<rparr>"
  let ?r2 = "\<lparr>Method = ''PUT'', request_body = update_body ''invalid-uuid'' ?ok0 ''[\"myapp\"]'' ''v1.0.0''\<rparr>"
  let ?r3 = "\<lparr>Method = ''PUT'', request_body = update_body ?ok0 ''invalid-uuid'' ''[\"myapp\"]'' ''v1.0.0''\<rparr>"
  let ?r4 = "\<lparr>Method = ''PUT'', request_body = update_body ?ok0 ?ok1 ''[]'' ''v1.0.0''\<rparr>"
  let ?r5 = "\<lparr>Method = ''PUT'', request_body = update_body ?ok0 ?ok1 ''[\"myapp\"]'' []\<rparr>"
  have u0: "uuid_Parse_ok ?E ?ok0" by code_simp
  have u1: "uuid_Parse_ok ?E ?ok1" by code_simp
  have ux: "\<not> uuid_Parse_ok ?E ''invalid-uuid''" by code_simp
  have d1: "decode_request ?E (request_body ?r1)
      = Inl (''invalid character '' @ [CHR 0x27, CHR ''i'', CHR 0x27]
               @ '' looking for beginning of value'')"
    by code_simp
  have d2: "decode_request ?E (request_body ?r2)
      = Inr \<lparr>ProjectID = ''invalid-uuid'', EnvironmentID = ?ok0,
             ImagePrefixes = [''myapp''], NewVersion = ''v1.0.0''\<rparr>"
    by code_simp
  have d3: "decode_request ?E (request_body ?r3)
      = Inr \<lparr>ProjectID = ?ok0, EnvironmentID = ''invalid-uuid'',
             ImagePrefixes = [''myapp''], NewVersion = ''v1.0.0''\<rparr>"
    by code_simp
  have d4: "decode_request ?E (request_body ?r4)
      = Inr \<lparr>ProjectID = ?ok0, EnvironmentID = ?ok1, ImagePrefixes = [], NewVersion = ''v1.0.0''\<rparr>"
    by code_simp
  have d5: "decode_request ?E (request_body ?r5)
      = Inr \<lparr>ProjectID = ?ok0, EnvironmentID = ?ok1, ImagePrefixes = [''myapp''], NewVersion = []\<rparr>"
    by code_simp
  have m: "Method ?r1 = ''PUT''" "Method ?r2 = ''PUT''" "Method ?r3 = ''PUT''"
    "Method ?r4 = ''PUT''" "Method ?r5 = ''PUT''"
    by simp_all
  note t = validation_failures_make_no_remote_call [where ext = ?E and client = example_client and hist = "[]"]
  from t [OF m(1)] d1 have 1: "status (fst (handleUpdate ?E example_client [] ?r1)) = 400
      \<and> body (fst (handleUpdate ?E example_client [] ?r1))
          = ErrorResponse (''Invalid JSON: invalid character '' @ [CHR 0x27, CHR ''i'', CHR 0x27]
              @ '' looking for beginning of value'')
      \<and> snd (handleUpdate ?E example_client [] ?r1) = []"
    by simp
  from t [OF m(2)] d2 ux have 2: "body (fst (handleUpdate ?E example_client [] ?r2))
      = ErrorResponse ''Invalid project_id: must be a valid UUID''"
    by simp
  from t [OF m(3)] d3 u0 ux have 3: "body (fst (handleUpdate ?E example_client [] ?r3))
      = ErrorResponse ''Invalid environment_id: must be a valid UUID''"
    by simp
  from t [OF m(4)] d4 u0 u1 have 4: "body (fst (handleUpdate ?E example_client [] ?r4))
      = ErrorResponse ''image_prefixes cannot be empty''"
    by simp
  from t [OF m(5)] d5 u0 u1 have 5: "status (fst (handleUpdate ?E example_client [] ?r5)) = 400
      \<and> body (fst (handleUpdate ?E example_client [] ?r5))
          = ErrorResponse ''new_version cannot be empty''
      \<and> snd (handleUpdate ?E example_client [] ?r5) = []"
    by simp
  from 1 2 3 4 5 show ?thesis by (intro conjI) simp_all
qed

text \<open>
  The claim C8 as stated fails: a body that is a well-formed request object followed
  by the text \<open>xyz\<close> is malformed JSON, yet the stream decoder reads the object and
  stops, so the handler does not answer 400: it makes the listing request and answers
  200.
\<close>

theorem trailing_data_after_json_value_is_accepted:
  "spec_malformed_json
     (update_body ''550e8400-e29b-41d4-a716-446655440000''
        ''550e8400-e29b-41d4-a716-446655440001'' ''[\"otherapp\"]'' ''v2'' @ '' xyz'')
   \<and> status (fst (handleUpdate (example_externals id healthy_transport) example_client []
      \<lparr>Method = ''PUT'',
       request_body = update_body ''550e8400-e29b-41d4-a716-446655440000''
         ''550e8400-e29b-41d4-a716-446655440001'' ''[\"otherapp\"]'' ''v2'' @ '' xyz''\<rparr>)) = 200
   \<and> snd (handleUpdate (example_externals id healthy_transport) example_client []
      \<lparr>Method = ''PUT'',
       request_body = update_body ''550e8400-e29b-41d4-a716-446655440000''
         ''550e8400-e29b-41d4-a716-446655440001'' ''[\"otherapp\"]'' ''v2'' @ '' xyz''\<rparr>)
     = [EnvironmentQuery ''550e8400-e29b-41d4-a716-446655440001'']"
  by code_simp

lemma service_requests_nonempty:
  "[] \<in> set ps \<Longrightarrow> service_requests c env ps v s \<noteq> []"
  using empty_string_is_prefix [of ps "Image s"]
  by (cases "matchPrefix (Image s) ps") (simp_all add: service_requests_def matchPrefix_None_iff)

text \<open>
  Claim C10. A PUT request that decodes, has valid UUIDs and a non-empty version, and
  whose prefix list contains the empty string passes validation (the answer is not a
  400 and the listing request is made); the empty prefix matches every image; and when
  the listing succeeds, every listed service with a non-empty image source is matched,
  so that the update and deployment requests are due for each of them, and when all of
  these requests succeed the answer is 200 with all those services, in the order of
  the listing, as updated.
\<close>

theorem empty_prefix_matches_every_service:
  assumes "Method r = ''PUT''"
    and "decode_request ext (request_body r) = Inr req"
    and "uuid_Parse_ok ext (ProjectID req)" and "uuid_Parse_ok ext (EnvironmentID req)"
    and "NewVersion req \<noteq> []"
    and e: "[] \<in> set (ImagePrefixes req)"
  shows "status (fst (handleUpdate ext client hist r)) \<noteq> 400
    \<and> (\<exists>more. snd (handleUpdate ext client hist r) = hist @ EnvironmentQuery (EnvironmentID req) # more)
    \<and> (\<forall>img. matchesPrefix img (ImagePrefixes req) \<and> matchPrefix img (ImagePrefixes req) \<noteq> None)
    \<and> (\<forall>data edges.
          doRequest ext client hist (EnvironmentQuery (EnvironmentID req))
            = (Inr data, hist @ [EnvironmentQuery (EnvironmentID req)])
          \<and> decode_environment ext data = Inr edges \<longrightarrow>
          (let svcs = services_of_edges ext edges;
               reqs = concat (map (service_requests client (EnvironmentID req) (ImagePrefixes req)
                                     (NewVersion req)) svcs)
           in map Name svcs = map ServiceName (filter (\<lambda>n. SourceImage n \<noteq> []) edges)
            \<and> matched_services (ImagePrefixes req) svcs = svcs
            \<and> (\<forall>s \<in> set svcs.
                  service_requests client (EnvironmentID req) (ImagePrefixes req) (NewVersion req) s \<noteq> [])
            \<and> (all_ok ext client (hist @ [EnvironmentQuery (EnvironmentID req)]) reqs \<longrightarrow>
                  status (fst (handleUpdate ext client hist r)) = 200
                \<and> (\<exists>msg. body (fst (handleUpdate ext client hist r))
                            = SuccessResponse msg (Some (map Name svcs)))
                \<and> snd (handleUpdate ext client hist r)
                    = hist @ [EnvironmentQuery (EnvironmentID req)] @ reqs)))"
proof -
  let ?env = "EnvironmentID req" and ?ps = "ImagePrefixes req" and ?v = "NewVersion req"
  let ?q = "EnvironmentQuery ?env"
  from e have ne: "?ps \<noteq> []" by auto
  note valid = assms(1-4) ne assms(5)
  have a: "status (fst (handleUpdate ext client hist r)) \<noteq> 400"
    using handleUpdate_validated_status(1) [OF valid, of client hist] by auto
  have b: "\<exists>more. snd (handleUpdate ext client hist r) = hist @ ?q # more"
    using handleUpdate_validated_status(2) [OF valid, of client hist]
      UpdateServices_hist [of ext client hist ?env ?ps ?v]
    by simp
  have c: "\<forall>img. matchesPrefix img ?ps \<and> matchPrefix img ?ps \<noteq> None"
    using empty_string_is_prefix [OF e] by (simp add: matchPrefix_None_iff)
  have d: "(let svcs = services_of_edges ext edges;
               reqs = concat (map (service_requests client ?env ?ps ?v) svcs)
           in map Name svcs = map ServiceName (filter (\<lambda>n. SourceImage n \<noteq> []) edges)
            \<and> matched_services ?ps svcs = svcs
            \<and> (\<forall>s \<in> set svcs. service_requests client ?env ?ps ?v s \<noteq> [])
            \<and> (all_ok ext client (hist @ [?q]) reqs \<longrightarrow>
                  status (fst (handleUpdate ext client hist r)) = 200
                \<and> (\<exists>msg. body (fst (handleUpdate ext client hist r))
                            = SuccessResponse msg (Some (map Name svcs)))
                \<and> snd (handleUpdate ext client hist r) = hist @ [?q] @ reqs))"
    if dr: "doRequest ext client hist ?q = (Inr data, hist @ [?q])"
      and de: "decode_environment ext data = Inr edges"
    for data edges
  proof -
    let ?svcs = "services_of_edges ext edges"
    let ?reqs = "concat (map (service_requests client ?env ?ps ?v) ?svcs)"
    from dr de have g: "GetServices ext client hist ?env = (Inr ?svcs, hist @ [?q])"
      by (simp add: GetServices_def)
    have 1: "map Name ?svcs = map ServiceName (filter (\<lambda>n. SourceImage n \<noteq> []) edges)"
      by (rule Name_services_of_edges)
    have 2: "matched_services ?ps ?svcs = ?svcs"
      using e by (rule matched_services_all)
    have 3: "\<forall>s \<in> set ?svcs. service_requests client ?env ?ps ?v s \<noteq> []"
      using service_requests_nonempty [OF e] by blast
    have 4: "status (fst (handleUpdate ext client hist r)) = 200
        \<and> (\<exists>msg. body (fst (handleUpdate ext client hist r)) = SuccessResponse msg (Some (map Name ?svcs)))
        \<and> snd (handleUpdate ext client hist r) = hist @ [?q] @ ?reqs"
      if ok: "all_ok ext client (hist @ [?q]) ?reqs"
    proof -
      from update_loop_all_ok [OF ok, of "[]"] g 2
      have u: "UpdateServices ext client hist ?env ?ps ?v
          = ((Some (map Name ?svcs), None), (hist @ [?q]) @ ?reqs)"
        by (simp add: UpdateServices_def)
      show ?thesis
        by (cases "map Name ?svcs = []")
          (simp_all add: handleUpdate_validated [OF valid] u respond_def)
    qed
    from 1 2 3 4 show ?thesis unfolding Let_def by blast
  qed
  from a b c d show ?thesis by blast
qed

theorem empty_prefix_matches_every_service_witness:
  "status (fst (handleUpdate (example_externals id healthy_transport) example_client []
      \<lparr>Method = ''PUT'',
       request_body = update_body ''550e8400-e29b-41d4-a716-446655440000''
         ''550e8400-e29b-41d4-a716-446655440001'' ''[\"\"]'' ''v2''\<rparr>)) = 200
   \<and> (\<exists>msg. body (fst (handleUpdate (example_externals id healthy_transport) example_client []
      \<lparr>Method = ''PUT'',
       request_body = update_body ''550e8400-e29b-41d4-a716-446655440000''
         ''550e8400-e29b-41d4-a716-446655440001'' ''[\"\"]'' ''v2''\<rparr>))
        = SuccessResponse msg (Some [''api'', ''worker'', ''web'']))
   \<and> snd (handleUpdate (example_externals id healthy_transport) example_client []
      \<lparr>Method = ''PUT'',
       request_body = update_body ''550e8400-e29b-41d4-a716-446655440000''
         ''550e8400-e29b-41d4-a716-446655440001'' ''[\"\"]'' ''v2''\<rparr>)
      = [EnvironmentQuery ''550e8400-e29b-41d4-a716-446655440001'',
         ServiceInstanceUpdate ''550e8400-e29b-41d4-a716-446655440001'' ''svc-a'' ''myapp:v2'' 3 None,
         ServiceInstanceDeploy ''svc-a'' ''550e8400-e29b-41d4-a716-446655440001'' False,
         ServiceInstanceUpdate ''550e8400-e29b-41d4-a716-446655440001'' ''svc-b'' ''myapp:v2'' 2 None,
         ServiceInstanceDeploy ''svc-b'' ''550e8400-e29b-41d4-a716-446655440001'' False,
         ServiceInstanceUpdate ''550e8400-e29b-41d4-a716-446655440001'' ''svc-c'' ''myapp:v2'' 1 None,
         ServiceInstanceDeploy ''svc-c'' ''550e8400-e29b-41d4-a716-446655440001'' False]"
proof -
  let ?E = "example_externals id healthy_transport"
  let ?env = "''550e8400-e29b-41d4-a716-446655440001''"
  let ?r = "\<lparr>Method = ''PUT'',
       request_body = update_body ''550e8400-e29b-41d4-a716-446655440000'' ?env ''[\"\"]'' ''v2''\<rparr>"
  let ?req = "\<lparr>ProjectID = ''550e8400-e29b-41d4-a716-446655440000'', EnvironmentID = ?env,
       ImagePrefixes = [[]], NewVersion = ''v2''\<rparr>"
  let ?reqs = "[ServiceInstanceUpdate ?env ''svc-a'' ''myapp:v2'' 3 None,
         ServiceInstanceDeploy ''svc-a'' ?env False,
         ServiceInstanceUpdate ?env ''svc-b'' ''myapp:v2'' 2 None,
         ServiceInstanceDeploy ''svc-b'' ?env False,
         ServiceInstanceUpdate ?env ''svc-c'' ''myapp:v2'' 1 None,
         ServiceInstanceDeploy ''svc-c'' ?env False]"
  have m: "Method ?r = ''PUT''" by simp
  have d: "decode_request ?E (request_body ?r) = Inr ?req" by code_simp
  have p: "uuid_Parse_ok ?E (ProjectID ?req)" by code_simp
  have e: "uuid_Parse_ok ?E (EnvironmentID ?req)" by code_simp
  have v: "NewVersion ?req \<noteq> []" by simp
  have i: "[] \<in> set (ImagePrefixes ?req)" by simp
  have q: "doRequest ?E example_client [] (EnvironmentQuery (EnvironmentID ?req))
      = (Inr ''edges'', [] @ [EnvironmentQuery (EnvironmentID ?req)])"
    by code_simp
  have de: "decode_environment ?E ''edges'' = Inr example_edges"
    by code_simp
  have sv: "services_of_edges ?E example_edges = example_services"
    by code_simp
  have rq: "concat (map (service_requests example_client (EnvironmentID ?req) (ImagePrefixes ?req)
              (NewVersion ?req)) example_services) = ?reqs"
    by code_simp
  have ok: "all_ok ?E example_client ([] @ [EnvironmentQuery (EnvironmentID ?req)]) ?reqs"
    by code_simp
  have nm: "map Name example_services = [''api'', ''worker'', ''web'']"
    by (simp add: example_services_def)
  note t = empty_prefix_matches_every_service [OF m d p e v i, of example_client "[]",
      THEN conjunct2, THEN conjunct2, THEN conjunct2, rule_format, of "''edges''" example_edges]
  from t q de have "let svcs = services_of_edges ?E example_edges;
               reqs = concat (map (service_requests example_client (EnvironmentID ?req) (ImagePrefixes ?req)
                                     (NewVersion ?req)) svcs)
           in map Name svcs = map ServiceName (filter (\<lambda>n. SourceImage n \<noteq> []) example_edges)
            \<and> matched_services (ImagePrefixes ?req) svcs = svcs
            \<and> (\<forall>s \<in> set svcs.
                  service_requests example_client (EnvironmentID ?req) (ImagePrefixes ?req) (NewVersion ?req) s \<noteq> [])
            \<and> (all_ok ?E example_client ([] @ [EnvironmentQuery (EnvironmentID ?req)]) reqs \<longrightarrow>
                  status (fst (handleUpdate ?E example_client [] ?r)) = 200
                \<and> (\<exists>msg. body (fst (handleUpdate ?E example_client [] ?r))
                            = SuccessResponse msg (Some (map Name svcs)))
                \<and> snd (handleUpdate ?E example_client [] ?r)
                    = [] @ [EnvironmentQuery (EnvironmentID ?req)] @ reqs)"
    by blast
  then have "status (fst (handleUpdate ?E example_client [] ?r)) = 200
                \<and> (\<exists>msg. body (fst (handleUpdate ?E example_client [] ?r))
                            = SuccessResponse msg (Some (map Name example_services)))
                \<and> snd (handleUpdate ?E example_client [] ?r)
                    = [] @ [EnvironmentQuery (EnvironmentID ?req)] @ ?reqs"
    unfolding Let_def sv rq using ok by blast
  then show ?thesis by (simp add: nm)
qed

end
